theory Spec2Isabelle
  imports Main "HOL-Library.Word"
begin

section \<open>JavaScript values\<close>

text \<open>
  A JavaScript string is a sequence of 16-bit code units. String literals of the source
  are written \<open>js ''...''\<close>; template strings are concatenations.
\<close>

type_synonym jschar = "16 word"
type_synonym jsstring = "jschar list"

definition js :: "string \<Rightarrow> jsstring" where
  "js = map of_char"

text \<open>
  WhiteSpace and LineTerminator of ECMAScript: the code units that \<open>\s\<close> matches and that
  \<open>String.prototype.trim\<close> strips. \<open>.\<close> matches every code unit but a LineTerminator.
\<close>

definition is_line_terminator :: "jschar \<Rightarrow> bool" where
  "is_line_terminator c = (c = 0x0A \<or> c = 0x0D \<or> c = 0x2028 \<or> c = 0x2029)"

definition is_space :: "jschar \<Rightarrow> bool" where
  "is_space c =
     (c = 0x09 \<or> c = 0x0A \<or> c = 0x0B \<or> c = 0x0C \<or> c = 0x0D \<or> c = 0x20 \<or> c = 0xA0
      \<or> c = 0x1680 \<or> (0x2000 \<le> c \<and> c \<le> 0x200A) \<or> c = 0x2028 \<or> c = 0x2029
      \<or> c = 0x202F \<or> c = 0x205F \<or> c = 0x3000 \<or> c = 0xFEFF)"

definition colon :: jschar where
  "colon = 0x3A"

definition trim :: "jsstring \<Rightarrow> jsstring" where
  "trim s = rev (dropWhile is_space (rev (dropWhile is_space s)))"

definition startsWith :: "jsstring \<Rightarrow> jsstring \<Rightarrow> bool" where
  "startsWith s p = (take (length p) s = p)"

text \<open>\<open>s.split(sep)\<close> for a one-unit separator: never the empty array.\<close>

fun split :: "jschar \<Rightarrow> jsstring \<Rightarrow> jsstring list" where
  "split sep [] = [[]]"
| "split sep (c # cs) =
     (if c = sep then [] # split sep cs
      else (case split sep cs of
              [] \<Rightarrow> [[c]]
            | l # ls \<Rightarrow> (c # l) # ls))"

text \<open>\<open>s.replace(a, b)\<close> with string arguments of one unit: the first occurrence only.\<close>

fun replace :: "jschar \<Rightarrow> jschar \<Rightarrow> jsstring \<Rightarrow> jsstring" where
  "replace a b [] = []"
| "replace a b (c # cs) = (if c = a then b # cs else c # replace a b cs)"

datatype jsval = Undefined | Bool bool | Str jsstring

text \<open>What a template string makes of an interpolated value.\<close>

fun to_string :: "jsval \<Rightarrow> jsstring" where
  "to_string Undefined = js ''undefined''"
| "to_string (Bool b) = (if b then js ''true'' else js ''false'')"
| "to_string (Str s) = s"

fun truthy :: "jsval \<Rightarrow> bool" where
  "truthy Undefined = False"
| "truthy (Bool b) = b"
| "truthy (Str s) = (s \<noteq> [])"

text \<open>\<open>xs[i]\<close> on an array of strings: \<open>undefined\<close> out of range.\<close>

definition index :: "jsstring list \<Rightarrow> nat \<Rightarrow> jsval" where
  "index xs i = (if i < length xs then Str (xs ! i) else Undefined)"

datatype exn =
    Error jsstring
  | AssertionError jsstring
  | TypeError
  | ReferenceError jsstring
  | ToolError jsstring

section \<open>Procfile parsing (service.js, lines 163-173)\<close>

text \<open>
  \<open>/^([^:]+):?\s+(.*)$/.exec(s)\<close>, as the backtracking matcher runs it. Every quantifier
  is greedy: the longest candidate is tried first and shorter ones after it, and the first
  success fixes the captures.

  \<open>try_spaces k r\<close>: \<open>\s+\<close> takes \<open>k\<close> units of \<open>r\<close> (the caller starts at the length of
  the whitespace run), then \<open>(.*)$\<close> has to reach the end of the input, which it does
  exactly when no line terminator is left.
\<close>

fun try_spaces :: "nat \<Rightarrow> jsstring \<Rightarrow> jsstring option" where
  "try_spaces 0 r = None"
| "try_spaces (Suc k) r =
     (if list_all (\<lambda>c. \<not> is_line_terminator c) (drop (Suc k) r) then Some (drop (Suc k) r)
      else try_spaces k r)"

definition match_spaces :: "jsstring \<Rightarrow> jsstring option" where
  "match_spaces r = try_spaces (length (takeWhile is_space r)) r"

text \<open>\<open>:?\<close> takes the colon when there is one, and gives it back if the rest fails.\<close>

definition match_colon :: "jsstring \<Rightarrow> jsstring option" where
  "match_colon r =
     (case r of
        [] \<Rightarrow> match_spaces r
      | c # r' \<Rightarrow>
          if c = colon then
            (case match_spaces r' of
               Some cmd \<Rightarrow> Some cmd
             | None \<Rightarrow> match_spaces r)
          else match_spaces r)"

text \<open>\<open>try_name n s\<close>: \<open>[^:]+\<close> takes the first \<open>n\<close> units of \<open>s\<close>.\<close>

fun try_name :: "nat \<Rightarrow> jsstring \<Rightarrow> (jsstring \<times> jsstring) option" where
  "try_name 0 s = None"
| "try_name (Suc n) s =
     (case match_colon (drop (Suc n) s) of
        Some cmd \<Rightarrow> Some (take (Suc n) s, cmd)
      | None \<Rightarrow> try_name n s)"

definition regex_exec :: "jsstring \<Rightarrow> (jsstring \<times> jsstring) option" where
  "regex_exec s = try_name (length (takeWhile (\<lambda>c. c \<noteq> colon) s)) s"

record proc =
  proc_name :: jsstring
  command :: jsstring

text \<open>
  The callback of \<open>map\<close>. \<open>quote\<close> is the function of the package shell-quote, which is
  not part of the source: it is a parameter.
\<close>

definition parse_line :: "(jsstring list \<Rightarrow> jsstring) \<Rightarrow> jsstring \<Rightarrow> exn + proc option" where
  "parse_line quote line =
     (if line = [] \<or> startsWith line (js ''#'') then Inr None
      else (case regex_exec (trim line) of
              None \<Rightarrow> Inl (Error (js ''unexpected line in Procfile: '' @ line))
            | Some (p1, p2) \<Rightarrow> Inr (Some \<lparr>proc_name = p1, command = quote [p2]\<rparr>)))"

text \<open>\<open>Array.prototype.map\<close> with a callback that may throw: the first throw ends it.\<close>

fun map_throwing :: "('a \<Rightarrow> exn + 'b) \<Rightarrow> 'a list \<Rightarrow> exn + 'b list" where
  "map_throwing f [] = Inr []"
| "map_throwing f (x # xs) =
     (case f x of
        Inl e \<Rightarrow> Inl e
      | Inr y \<Rightarrow> (case map_throwing f xs of Inl e \<Rightarrow> Inl e | Inr ys \<Rightarrow> Inr (y # ys)))"

definition parse_procfile :: "(jsstring list \<Rightarrow> jsstring) \<Rightarrow> jsstring \<Rightarrow> exn + proc list" where
  "parse_procfile quote Procfile =
     (case map_throwing (parse_line quote) (split 0x0A Procfile) of
        Inl e \<Rightarrow> Inl e
      | Inr ls \<Rightarrow> Inr (map the (filter (\<lambda>l. l \<noteq> None) ls)))"

text \<open>
  Modelled from the spec: \<open>quote\<close> of the package shell-quote is missing from the source.
  Section 4.4 has each command value "shell-escaped as a single quoted token": every token
  is put between single quotes, a single quote or backslash inside it escaped by a
  backslash, and the tokens are joined by a space. It is used for closed examples only.
\<close>

fun escape :: "jsstring \<Rightarrow> jsstring" where
  "escape [] = []"
| "escape (c # cs) = (if c = 0x27 \<or> c = 0x5C then 0x5C # c # escape cs else c # escape cs)"

fun quote_spec :: "jsstring list \<Rightarrow> jsstring" where
  "quote_spec [] = []"
| "quote_spec [s] = 0x27 # escape s @ [0x27]"
| "quote_spec (s # ss) = 0x27 # escape s @ [0x27] @ 0x20 # quote_spec ss"

text \<open>
  The lines that are neither blank nor a comment: the tests are made on the line as it
  stands, before \<open>trim\<close>.
\<close>

definition remaining :: "jsstring \<Rightarrow> bool" where
  "remaining line = (line \<noteq> [] \<and> \<not> startsWith line (js ''#''))"

definition unexpected :: "jsstring \<Rightarrow> bool" where
  "unexpected line = (remaining line \<and> regex_exec (trim line) = None)"

text \<open>
  The form of a line in words: a name (not empty, no colon), a colon or none, whitespace
  (at least one unit), a command (no line terminator).
\<close>

definition line_form :: "jsstring \<Rightarrow> bool" where
  "line_form s =
     (\<exists>a ws c. a \<noteq> [] \<and> colon \<notin> set a \<and> ws \<noteq> [] \<and> list_all is_space ws
        \<and> list_all (\<lambda>u. \<not> is_line_terminator u) c
        \<and> (s = a @ ws @ c \<or> s = a @ colon # ws @ c))"

section \<open>The host, the delegated operations and the trace of a run\<close>

text \<open>
  \<open>service.js\<close> delegates every effect: to \<open>./utils\<close> (\<open>gitClone\<close>, \<open>dockerRun\<close>,
  \<open>dockerPull\<close>, \<open>dockerImages\<close>, \<open>dockerBuild\<close>, \<open>dockerRegistryCheck\<close>, \<open>dockerPush\<close>,
  \<open>dirStamped\<close>, \<open>stampDir\<close>), to Node (\<open>fs\<close>, \<open>path\<close>) and to packages (\<open>rimraf\<close>,
  \<open>mkdirp\<close>, \<open>recursive-copy\<close>, \<open>tar-fs\<close>, \<open>dot\<close>, \<open>shell-quote\<close>). None of them is
  part of the source, so each is a field of the environment \<open>env\<close>, acting on a host state
  of any type \<open>'s\<close>: an operation with an effect returns the new host and may fail, a
  probe or a read returns a value. The model keeps a trace of the calls that a run makes;
  a call that throws \<open>e\<close> is followed in the trace by \<open>Threw e\<close>.
\<close>

record image =
  RepoTags :: "jsstring list option"

record dockerRun_args =
  run_image :: jsstring
  run_command :: "jsstring list"
  run_env :: "jsstring list option"
  run_binds :: "jsstring list"
  run_logfile :: jsstring
  run_baseDir :: jsstring

record tarball =
  pack_cwd :: jsstring
  pack_entries :: "jsstring list"
  pack_ignore :: "jsstring \<Rightarrow> bool"

record dockerBuild_args =
  build_tarball :: tarball
  build_logfile :: jsstring
  build_tag :: jsstring
  build_baseDir :: jsstring

datatype event =
    Step jsstring
  | GitClone jsstring jsstring
  | DockerPull jsstring jsstring
  | DockerImages jsstring
  | DockerRegistryCheck jsstring
  | DockerRun dockerRun_args
  | DockerBuild dockerBuild_args
  | DockerPush jsstring jsval jsstring
  | Rimraf jsstring
  | Mkdirp jsstring
  | Copy jsval jsstring
  | MkdirSync jsstring
  | WriteFileSync jsstring jsstring "nat option"
  | StampDir jsstring jsval
  | Threw exn

record 's env =
  path_join :: "jsstring list \<Rightarrow> jsstring"
  path_dirname :: "jsstring \<Rightarrow> jsstring"
  existsSync :: "jsstring \<Rightarrow> 's \<Rightarrow> bool"
  mkdirSync :: "jsstring \<Rightarrow> 's \<Rightarrow> (exn + unit) \<times> 's"
  readFileSync :: "jsstring \<Rightarrow> 's \<Rightarrow> exn + jsstring"
  writeFileSync :: "jsstring \<Rightarrow> jsstring \<Rightarrow> nat option \<Rightarrow> 's \<Rightarrow> (exn + unit) \<times> 's"
  rimraf :: "jsstring \<Rightarrow> 's \<Rightarrow> (exn + unit) \<times> 's"
  mkdirp :: "jsstring \<Rightarrow> 's \<Rightarrow> (exn + unit) \<times> 's"
  copy :: "jsval \<Rightarrow> jsstring \<Rightarrow> 's \<Rightarrow> (exn + unit) \<times> 's"
  gitClone :: "jsstring \<Rightarrow> jsstring \<Rightarrow> 's \<Rightarrow> (exn + unit) \<times> 's"
  dockerRun :: "dockerRun_args \<Rightarrow> 's \<Rightarrow> (exn + unit) \<times> 's"
  dockerPull :: "jsstring \<Rightarrow> jsstring \<Rightarrow> 's \<Rightarrow> (exn + unit) \<times> 's"
  dockerImages :: "jsstring \<Rightarrow> 's \<Rightarrow> exn + image list"
  dockerBuild :: "dockerBuild_args \<Rightarrow> 's \<Rightarrow> (exn + unit) \<times> 's"
  dockerRegistryCheck :: "jsstring \<Rightarrow> 's \<Rightarrow> exn + bool"
  dockerPush :: "jsstring \<Rightarrow> jsval \<Rightarrow> jsstring \<Rightarrow> 's \<Rightarrow> (exn + unit) \<times> 's"
  dirStamped :: "jsstring \<Rightarrow> jsval \<Rightarrow> 's \<Rightarrow> bool"
  stampDir :: "jsstring \<Rightarrow> jsval \<Rightarrow> 's \<Rightarrow> (exn + unit) \<times> 's"
  quote :: "jsstring list \<Rightarrow> jsstring"
  ENTRYPOINT_TEMPLATE :: "proc list \<Rightarrow> jsstring"
  DOCKERFILE_TEMPLATE :: "jsstring \<Rightarrow> jsstring"

record 's world =
  host :: 's
  trace :: "event list"

type_synonym ('s, 'a) io = "'s world \<Rightarrow> (exn + 'a) \<times> 's world"

definition io_return :: "'a \<Rightarrow> ('s, 'a) io" where
  "io_return a w = (Inr a, w)"

definition io_throw :: "exn \<Rightarrow> ('s, 'a) io" where
  "io_throw e w = (Inl e, w)"

text \<open>Sequencing: a throw ends the run, with the world as it is then.\<close>

definition io_bind :: "('s, 'a) io \<Rightarrow> ('a \<Rightarrow> ('s, 'b) io) \<Rightarrow> ('s, 'b) io" where
  "io_bind m f w = (case m w of (Inl e, w') \<Rightarrow> (Inl e, w') | (Inr a, w') \<Rightarrow> f a w')"

text \<open>What a call adds to the trace: the call, and \<open>Threw e\<close> when it throws \<open>e\<close>.\<close>

definition logged :: "event \<Rightarrow> exn + 'a \<Rightarrow> event list" where
  "logged ev r = (case r of Inl e \<Rightarrow> [ev, Threw e] | Inr a \<Rightarrow> [ev])"

text \<open>A delegated operation with an effect: the call is logged, the operation acts on the host.\<close>

definition io_call :: "event \<Rightarrow> ('s \<Rightarrow> (exn + 'a) \<times> 's) \<Rightarrow> ('s, 'a) io" where
  "io_call ev op w =
     (case op (host w) of (r, h) \<Rightarrow> (r, \<lparr>host = h, trace = trace w @ logged ev r\<rparr>))"

text \<open>A delegated probe (\<open>dockerImages\<close>, \<open>dockerRegistryCheck\<close>): logged, the host is unchanged.\<close>

definition io_probe :: "event \<Rightarrow> ('s \<Rightarrow> exn + 'a) \<Rightarrow> ('s, 'a) io" where
  "io_probe ev q w = (q (host w), \<lparr>host = host w, trace = trace w @ logged ev (q (host w))\<rparr>)"

text \<open>A synchronous read of the host (\<open>dirStamped\<close>, \<open>fs.existsSync\<close>, \<open>fs.readFileSync\<close>): not logged.\<close>

definition io_read :: "('s \<Rightarrow> 'a) \<Rightarrow> ('s, 'a) io" where
  "io_read q w = (Inr (q (host w)), w)"

definition io_read_throwing :: "('s \<Rightarrow> exn + 'a) \<Rightarrow> ('s, 'a) io" where
  "io_read_throwing q w = (q (host w), w)"

text \<open>A pure computation that may throw.\<close>

definition io_lift :: "exn + 'a \<Rightarrow> ('s, 'a) io" where
  "io_lift r w = (r, w)"

fun io_forEach :: "'a list \<Rightarrow> ('a \<Rightarrow> ('s, unit) io) \<Rightarrow> ('s, unit) io" where
  "io_forEach [] f = io_return ()"
| "io_forEach (x # xs) f = io_bind (f x) (\<lambda>_. io_forEach xs f)"

text \<open>\<open>utils.step({title})\<close>: a notification to the executor; it returns nothing and never fails.\<close>

definition step :: "jsstring \<Rightarrow> ('s, unit) io" where
  "step t w = (Inr (), \<lparr>host = host w, trace = trace w @ [Step t]\<rparr>)"

section \<open>Task nodes\<close>

type_synonym obj = "(jsstring \<times> jsval) list"

text \<open>
  What \<open>run\<close> resolves to: \<open>utils.skip(o)\<close>, an object \<open>o\<close>, or \<open>undefined\<close> when the function
  body ends without a \<open>return\<close>.
\<close>

datatype result = Skip obj | Value obj | NoValue

record 's task =
  title :: jsstring
  requires :: "jsstring list"
  provides :: "jsstring list"
  run :: "(jsstring \<Rightarrow> jsval) \<Rightarrow> ('s, result) io"

text \<open>Lines 38-42. \<open>_.find(tasks, {title: task.title})\<close> is the first node with that title.\<close>

definition ensureTask :: "'s task list \<Rightarrow> 's task \<Rightarrow> 's task list" where
  "ensureTask tasks task =
     (if find (\<lambda>t. title t = title task) tasks = None then tasks @ [task] else tasks)"

subsection \<open>The configuration\<close>

record service_spec =
  buildtype :: jsstring
  stack :: jsstring
  buildpack :: jsstring

record repository =
  repo_name :: jsstring
  service :: service_spec

record build_spec =
  repositories :: "repository list"

record spec =
  build :: build_spec

record docker_cfg =
  repositoryPrefix :: jsval

record cfg =
  docker :: docker_cfg

record cmdOptions =
  push :: jsval

subsection \<open>The nodes of \<open>generateServiceTasks\<close> (lines 22-317)\<close>

text \<open>
  Each \<open>run\<close> is a function of the variables it closes over and of \<open>requirements\<close>, an
  object read by key (\<open>undefined\<close> for a missing key). The second parameter \<open>utils\<close> of the
  source is the executor's: \<open>utils.step\<close> is \<open>step\<close>, \<open>utils.skip(o)\<close> is \<open>Skip o\<close>.
\<close>

text \<open>Lines 50-52 and 61-63: the function body ends after \<open>await dockerPull\<close>.\<close>

definition pull_run :: "'s env \<Rightarrow> jsstring \<Rightarrow> jsstring \<Rightarrow> (jsstring \<Rightarrow> jsval) \<Rightarrow> ('s, result) io" where
  "pull_run env baseDir image_name requirements =
     io_bind (io_call (DockerPull image_name baseDir) (dockerPull env image_name baseDir)) (\<lambda>_.
     io_return NoValue)"

definition pull_task :: "'s env \<Rightarrow> jsstring \<Rightarrow> jsstring \<Rightarrow> 's task" where
  "pull_task env baseDir image_name =
     \<lparr>title = js ''Pull Docker Image '' @ image_name,
      requires = [],
      provides = [js ''docker-image-'' @ image_name],
      run = pull_run env baseDir image_name\<rparr>"

text \<open>Lines 72-83.\<close>

definition clone_run ::
  "'s env \<Rightarrow> jsstring \<Rightarrow> jsstring \<Rightarrow> jsval \<Rightarrow> (jsstring \<Rightarrow> jsval) \<Rightarrow> ('s, result) io" where
  "clone_run env baseDir buildpackUrl buildpackName requirements =
     (let repoDir = path_join env [baseDir, js ''repo-'' @ to_string buildpackName]
      in io_bind (io_call (GitClone repoDir buildpackUrl) (gitClone env repoDir buildpackUrl)) (\<lambda>_.
         io_return (Value [(js ''repo-'' @ to_string buildpackName, Str repoDir)])))"

definition clone_task :: "'s env \<Rightarrow> jsstring \<Rightarrow> jsstring \<Rightarrow> jsval \<Rightarrow> 's task" where
  "clone_task env baseDir buildpackUrl buildpackName =
     \<lparr>title = js ''Clone '' @ to_string buildpackName,
      requires = [],
      provides = [js ''repo-'' @ to_string buildpackName],
      run = clone_run env baseDir buildpackUrl buildpackName\<rparr>"

text \<open>
  Lines 97-179. The unused \<open>stampFile\<close> is left out. \<open>compile_steps\<close> is the part of the
  body between \<open>rimraf(appDir)\<close> and \<open>stampDir\<close> (lines 113-175); the mode \<open>0o777\<close> of the
  entrypoint is 511.
\<close>

definition compile_steps ::
  "'s env \<Rightarrow> jsstring \<Rightarrow> jsstring \<Rightarrow> jsstring \<Rightarrow> jsstring \<Rightarrow> jsval \<Rightarrow> jsstring \<Rightarrow> jsval
     \<Rightarrow> ('s, unit) io" where
  "compile_steps env baseDir workDir name buildImage repoDir appDir bpDir =
     io_bind (step (js ''Copy Source Repository'')) (\<lambda>_.
     io_bind (io_call (Copy repoDir appDir) (copy env repoDir appDir)) (\<lambda>_.
     io_bind (step (js ''Buildpack Detect'')) (\<lambda>_.
     let detect =
       \<lparr>run_image = buildImage,
        run_command = [js ''/buildpack/bin/detect'', js ''/app''],
        run_env = None,
        run_binds = [to_string bpDir @ js '':/buildpack'', appDir @ js '':/app''],
        run_logfile = workDir @ js ''/detect.log'',
        run_baseDir = baseDir\<rparr>
     in
     io_bind (io_call (DockerRun detect) (dockerRun env detect)) (\<lambda>_.
     io_bind (step (js ''Buildpack Compile'')) (\<lambda>_.
     let envDir = path_join env [workDir, js ''env''];
         cacheDir = path_join env [workDir, js ''cache'']
     in
     io_bind (io_bind (io_read (existsSync env envDir)) (\<lambda>found.
               if found then io_call (Rimraf envDir) (rimraf env envDir) else io_return ())) (\<lambda>_.
     io_bind (io_forEach [envDir, cacheDir] (\<lambda>dir.
               io_bind (io_read (existsSync env dir)) (\<lambda>found.
               if \<not> found then io_call (MkdirSync dir) (mkdirSync env dir) else io_return ()))) (\<lambda>_.
     let compile =
       \<lparr>run_image = buildImage,
        run_command = [js ''/buildpack/bin/compile'', js ''/app'', js ''/cache'', js ''/env''],
        run_env = None,
        run_binds = [to_string bpDir @ js '':/buildpack'', appDir @ js '':/app'',
                     envDir @ js '':/env'', cacheDir @ js '':/cache''],
        run_logfile = workDir @ js ''/compile.log'',
        run_baseDir = baseDir\<rparr>
     in
     io_bind (io_call (DockerRun compile) (dockerRun env compile)) (\<lambda>_.
     io_bind (step (js ''Create Entrypoint Script'')) (\<lambda>_.
     let procfilePath = path_join env [appDir, js ''Procfile'']
     in
     io_bind (io_read (existsSync env procfilePath)) (\<lambda>found.
     if \<not> found then io_throw (Error (js ''Service '' @ name @ js '' has no Procfile''))
     else
     io_bind (io_read_throwing (readFileSync env procfilePath)) (\<lambda>Procfile.
     io_bind (io_lift (parse_procfile (quote env) Procfile)) (\<lambda>procs.
     let entrypoint = ENTRYPOINT_TEMPLATE env procs
     in
     io_call (WriteFileSync (path_join env [appDir, js ''entrypoint'']) entrypoint (Some 511))
       (writeFileSync env (path_join env [appDir, js ''entrypoint'']) entrypoint (Some 511))
     ))))))))))))"

definition compile_run ::
  "'s env \<Rightarrow> jsstring \<Rightarrow> jsstring \<Rightarrow> jsstring \<Rightarrow> jsstring \<Rightarrow> jsval \<Rightarrow> (jsstring \<Rightarrow> jsval)
     \<Rightarrow> ('s, result) io" where
  "compile_run env baseDir workDir name buildImage buildpackName requirements =
     (let repoDir = requirements (js ''repo-'' @ name @ js ''-dir'');
          appDir = path_join env [workDir, js ''app''];
          bpDir = requirements (js ''repo-'' @ to_string buildpackName);
          provides = [(js ''service-'' @ name @ js ''-built-app-dir'', Str appDir)]
      in
      io_bind (io_read (dirStamped env appDir
                 (requirements (js ''repo-'' @ name @ js ''-exact-source'')))) (\<lambda>stamped.
      if stamped then io_return (Skip provides)
      else
      io_bind (io_call (Rimraf appDir) (rimraf env appDir)) (\<lambda>_.
      io_bind (compile_steps env baseDir workDir name buildImage repoDir appDir bpDir) (\<lambda>_.
      io_bind (io_call (StampDir appDir (requirements (js ''repo-'' @ name @ js ''-exact-source'')))
                 (stampDir env appDir (requirements (js ''repo-'' @ name @ js ''-exact-source'')))) (\<lambda>_.
      io_return (Value provides))))))"

definition compile_task ::
  "'s env \<Rightarrow> jsstring \<Rightarrow> jsstring \<Rightarrow> jsstring \<Rightarrow> jsstring \<Rightarrow> jsval \<Rightarrow> 's task" where
  "compile_task env baseDir workDir name buildImage buildpackName =
     \<lparr>title = js ''Service '' @ name @ js '' - Compile'',
      requires = [js ''repo-'' @ name @ js ''-dir'',
                  js ''repo-'' @ name @ js ''-exact-source'',
                  js ''docker-image-'' @ buildImage,
                  js ''repo-'' @ to_string buildpackName],
      provides = [js ''service-'' @ name @ js ''-built-app-dir''],
      run = compile_run env baseDir workDir name buildImage buildpackName\<rparr>"

text \<open>
  Lines 193-238. \<open>requirements[...].split('#')\<close> throws a TypeError unless the value is a
  string, and so does \<open>path.join(appDir, '.git')\<close>. The callback \<open>ignore\<close> tests \<open>name\<close>, the
  service name, whatever its argument is.
\<close>

definition build_image_run ::
  "'s env \<Rightarrow> jsstring \<Rightarrow> jsstring \<Rightarrow> cfg \<Rightarrow> jsstring \<Rightarrow> jsstring \<Rightarrow> (jsstring \<Rightarrow> jsval)
     \<Rightarrow> ('s, result) io" where
  "build_image_run env baseDir workDir cfg name stackImage requirements =
     (let appDir = requirements (js ''service-'' @ name @ js ''-built-app-dir'')
      in
      case requirements (js ''repo-'' @ name @ js ''-exact-source'') of
        Str exact_source \<Rightarrow>
          (let headRef = index (split 0x23 exact_source) 1;
               tag = to_string (repositoryPrefix (docker cfg)) @ name @ js '':'' @ to_string headRef
           in
           io_bind (step (js ''Check for Existing Images'')) (\<lambda>_.
           io_bind (io_probe (DockerImages baseDir) (dockerImages env baseDir)) (\<lambda>images.
           let imageLocal =
             list_ex (\<lambda>im. case RepoTags im of None \<Rightarrow> False | Some tags \<Rightarrow> tag \<in> set tags)
               images
           in
           io_bind (io_probe (DockerRegistryCheck tag) (dockerRegistryCheck env tag)) (\<lambda>imageOnRegistry.
           let provides =
             [(js ''service-'' @ name @ js ''-docker-image'', Str tag),
              (js ''service-'' @ name @ js ''-image-on-registry'', Bool imageOnRegistry)]
           in
           if \<not> imageLocal \<and> imageOnRegistry then
             io_bind (io_call (DockerPull tag baseDir) (dockerPull env tag baseDir)) (\<lambda>_.
             io_return (Skip provides))
           else if imageLocal then io_return (Skip provides)
           else
           io_bind (step (js ''Create Docker-Build Tarball'')) (\<lambda>_.
           let dockerfile = DOCKERFILE_TEMPLATE env stackImage
           in
           io_bind (io_call (WriteFileSync (path_join env [workDir, js ''Dockerfile'']) dockerfile None)
                      (writeFileSync env (path_join env [workDir, js ''Dockerfile'']) dockerfile None)) (\<lambda>_.
           case appDir of
             Str appDir' \<Rightarrow>
               (let appGitDir = path_join env [appDir', js ''.git''];
                    tarball =
                      \<lparr>pack_cwd = workDir,
                       pack_entries = [js ''app'', js ''Dockerfile''],
                       pack_ignore = (\<lambda>fulname. startsWith name appGitDir)\<rparr>;
                    args =
                      \<lparr>build_tarball = tarball,
                       build_logfile = workDir @ js ''/docker-build.log'',
                       build_tag = tag,
                       build_baseDir = baseDir\<rparr>
                in
                io_bind (io_call (DockerBuild args) (dockerBuild env args)) (\<lambda>_.
                io_return (Value provides)))
           | _ \<Rightarrow> io_throw TypeError))))))
      | _ \<Rightarrow> io_throw TypeError)"

definition build_image_task ::
  "'s env \<Rightarrow> jsstring \<Rightarrow> jsstring \<Rightarrow> cfg \<Rightarrow> jsstring \<Rightarrow> jsstring \<Rightarrow> 's task" where
  "build_image_task env baseDir workDir cfg name stackImage =
     \<lparr>title = js ''Service '' @ name @ js '' - Build Image'',
      requires = [js ''repo-'' @ name @ js ''-exact-source'',
                  js ''service-'' @ name @ js ''-built-app-dir'',
                  js ''docker-image-'' @ stackImage],
      provides = [js ''service-'' @ name @ js ''-docker-image'',
                  js ''service-'' @ name @ js ''-image-on-registry''],
      run = build_image_run env baseDir workDir cfg name stackImage\<rparr>"

text \<open>Lines 251-283. The unused \<open>stampFile\<close> is left out.\<close>

definition docs_run ::
  "'s env \<Rightarrow> jsstring \<Rightarrow> jsstring \<Rightarrow> jsstring \<Rightarrow> jsstring \<Rightarrow> (jsstring \<Rightarrow> jsval)
     \<Rightarrow> ('s, result) io" where
  "docs_run env baseDir workDir name stackImage requirements =
     (let appDir = requirements (js ''service-'' @ name @ js ''-built-app-dir'');
          docsDir = path_join env [baseDir, js ''docs'', name];
          provides = [(js ''docs-'' @ name @ js ''-dir'', Str docsDir)]
      in
      io_bind (io_read (dirStamped env docsDir
                 (requirements (js ''repo-'' @ name @ js ''-exact-source'')))) (\<lambda>stamped.
      if stamped then io_return (Skip provides)
      else
      io_bind (io_call (Rimraf docsDir) (rimraf env docsDir)) (\<lambda>_.
      io_bind (io_call (Mkdirp (path_dirname env docsDir)) (mkdirp env (path_dirname env docsDir))) (\<lambda>_.
      let args =
        \<lparr>run_image = stackImage,
         run_command = [js ''/app/entrypoint'', js ''write-docs''],
         run_env = Some [js ''DOCS_OUTPUT_DIR=/basedir/docs/'' @ name],
         run_binds = [to_string appDir @ js '':/app'', baseDir @ js '':/basedir''],
         run_logfile = workDir @ js ''/generate-docs.log'',
         run_baseDir = baseDir\<rparr>
      in
      io_bind (io_call (DockerRun args) (dockerRun env args)) (\<lambda>_.
      io_bind (io_call (StampDir docsDir (requirements (js ''repo-'' @ name @ js ''-exact-source'')))
                 (stampDir env docsDir (requirements (js ''repo-'' @ name @ js ''-exact-source'')))) (\<lambda>_.
      io_return (Value provides)))))))"

definition docs_task :: "'s env \<Rightarrow> jsstring \<Rightarrow> jsstring \<Rightarrow> jsstring \<Rightarrow> jsstring \<Rightarrow> 's task" where
  "docs_task env baseDir workDir name stackImage =
     \<lparr>title = js ''Service '' @ name @ js '' - Generate Docs'',
      requires = [js ''repo-'' @ name @ js ''-exact-source'',
                  js ''service-'' @ name @ js ''-built-app-dir'',
                  js ''docker-image-'' @ stackImage],
      provides = [js ''docs-'' @ name @ js ''-dir''],
      run = docs_run env baseDir workDir name stackImage\<rparr>"

text \<open>
  Lines 294-313. The last statement is \<open>return provides\<close>, and no variable \<open>provides\<close> is in
  scope there (not in \<open>run\<close>, not in \<open>generateServiceTasks\<close>, not in the module): evaluating
  the identifier throws a ReferenceError.
\<close>

definition push_run ::
  "'s env \<Rightarrow> jsstring \<Rightarrow> jsstring \<Rightarrow> jsstring \<Rightarrow> cmdOptions \<Rightarrow> (jsstring \<Rightarrow> jsval)
     \<Rightarrow> ('s, result) io" where
  "push_run env baseDir workDir name cmdOptions requirements =
     (let tag = requirements (js ''service-'' @ name @ js ''-docker-image'')
      in
      if \<not> truthy (push cmdOptions) then io_return (Skip [])
      else if truthy (requirements (js ''service-'' @ name @ js ''-image-on-registry'')) then
        io_throw (Error (js ''Image '' @ to_string tag
                         @ js '' already exists on the registry; not pushing''))
      else
      io_bind (io_call (DockerPush (workDir @ js ''/docker-push.log'') tag baseDir)
                 (dockerPush env (workDir @ js ''/docker-push.log'') tag baseDir)) (\<lambda>_.
      io_throw (ReferenceError (js ''provides''))))"

definition push_task :: "'s env \<Rightarrow> jsstring \<Rightarrow> jsstring \<Rightarrow> jsstring \<Rightarrow> cmdOptions \<Rightarrow> 's task" where
  "push_task env baseDir workDir name cmdOptions =
     \<lparr>title = js ''Service '' @ name @ js '' - Push Image'',
      requires = [js ''service-'' @ name @ js ''-docker-image'',
                  js ''service-'' @ name @ js ''-image-on-registry''],
      provides = [],
      run = push_run env baseDir workDir name cmdOptions\<rparr>"

text \<open>
  Lines 22-36 and 316. \<open>_.find\<close> returns \<open>undefined\<close> when no repository has the name, and
  reading \<open>repository.service\<close> then throws a TypeError, after the working directory was
  made. The array \<open>tasks\<close> is extended in place and returned.
\<close>

definition generateServiceTasks ::
  "'s env \<Rightarrow> 's task list \<Rightarrow> jsstring \<Rightarrow> spec \<Rightarrow> cfg \<Rightarrow> jsstring \<Rightarrow> cmdOptions
     \<Rightarrow> ('s, 's task list) io" where
  "generateServiceTasks env tasks baseDir spec cfg name cmdOptions =
     (let repository = find (\<lambda>r. repo_name r = name) (repositories (build spec));
          workDir = path_join env [baseDir, js ''service-'' @ name]
      in
      io_bind (io_bind (io_read (existsSync env workDir)) (\<lambda>found.
                if \<not> found then io_call (MkdirSync workDir) (mkdirSync env workDir)
                else io_return ())) (\<lambda>_.
      case repository of
        None \<Rightarrow> io_throw TypeError
      | Some repository \<Rightarrow>
          if buildtype (service repository) \<noteq> js ''heroku-buildpack'' then
            io_throw (AssertionError (js ''I only know how to do heroku buildpacks!''))
          else
          (let stackImage = js ''heroku/'' @ replace 0x2D 0x3A (stack (service repository));
               buildImage = js ''heroku/'' @ replace 0x2D 0x3A (stack (service repository))
                              @ js ''-build'';
               buildpackUrl = buildpack (service repository);
               buildpackName =
                 (if startsWith buildpackUrl (js ''https://github.com/heroku/'')
                  then index (split 0x2F buildpackUrl) 4
                  else Str (replace 0x2F 0x5F buildpackUrl));
               tasks1 = ensureTask tasks (pull_task env baseDir stackImage);
               tasks2 = ensureTask tasks1 (pull_task env baseDir buildImage);
               tasks3 = ensureTask tasks2 (clone_task env baseDir buildpackUrl buildpackName)
           in
           io_return
             (tasks3 @
              [compile_task env baseDir workDir name buildImage buildpackName,
               build_image_task env baseDir workDir cfg name stackImage,
               docs_task env baseDir workDir name stackImage,
               push_task env baseDir workDir name cmdOptions]))))"

section \<open>Properties of a run\<close>




text \<open>The keys of an object.\<close>

definition keys :: "obj \<Rightarrow> jsstring set" where
  "keys ob = fst ` set ob"

section \<open>A simulated host for closed examples\<close>

text \<open>
  A small host: the stamps of directories, the files with their contents, the local images
  and the tags on the registry. \<open>copy\<close> brings a Procfile with one process, \<open>rimraf\<close>
  removes the stamp and the files of a directory, the docker and git operations succeed.
\<close>

record sim =
  sim_stamps :: "(jsstring \<times> jsval) list"
  sim_files :: "(jsstring \<times> jsstring) list"
  sim_images :: "image list"
  sim_registry :: "jsstring list"

definition sim_env :: "sim env" where
  "sim_env =
     \<lparr>path_join =
        (\<lambda>ps. case ps of [] \<Rightarrow> js ''.'' | p # ps' \<Rightarrow> foldl (\<lambda>a b. a @ js ''/'' @ b) p ps'),
      path_dirname = (\<lambda>p. rev (tl (dropWhile (\<lambda>c. c \<noteq> 0x2F) (rev p)))),
      existsSync = (\<lambda>p h. map_of (sim_files h) p \<noteq> None),
      mkdirSync = (\<lambda>p h. (Inr (), h\<lparr>sim_files := (p, []) # sim_files h\<rparr>)),
      readFileSync =
        (\<lambda>p h. case map_of (sim_files h) p of
                  None \<Rightarrow> Inl (ToolError (js ''ENOENT''))
                | Some c \<Rightarrow> Inr c),
      writeFileSync = (\<lambda>p d m h. (Inr (), h\<lparr>sim_files := (p, d) # sim_files h\<rparr>)),
      rimraf =
        (\<lambda>p h. (Inr (), h\<lparr>sim_stamps := filter (\<lambda>e. fst e \<noteq> p) (sim_stamps h),
                             sim_files := filter (\<lambda>e. \<not> startsWith (fst e) p) (sim_files h)\<rparr>)),
      mkdirp = (\<lambda>p h. (Inr (), h)),
      copy =
        (\<lambda>src dst h.
           (Inr (), h\<lparr>sim_files := (dst @ js ''/Procfile'', js ''web: node app.js'') # sim_files h\<rparr>)),
      gitClone = (\<lambda>d u h. (Inr (), h)),
      dockerRun = (\<lambda>a h. (Inr (), h)),
      dockerPull = (\<lambda>i b h. (Inr (), h\<lparr>sim_images := \<lparr>RepoTags = Some [i]\<rparr> # sim_images h\<rparr>)),
      dockerImages = (\<lambda>b h. Inr (sim_images h)),
      dockerBuild =
        (\<lambda>a h. (Inr (), h\<lparr>sim_images := \<lparr>RepoTags = Some [build_tag a]\<rparr> # sim_images h\<rparr>)),
      dockerRegistryCheck = (\<lambda>t h. Inr (list_ex (\<lambda>u. u = t) (sim_registry h))),
      dockerPush = (\<lambda>l t b h. (Inr (), h\<lparr>sim_registry := to_string t # sim_registry h\<rparr>)),
      dirStamped = (\<lambda>d s h. map_of (sim_stamps h) d = Some s),
      stampDir = (\<lambda>d s h. (Inr (), h\<lparr>sim_stamps := (d, s) # sim_stamps h\<rparr>)),
      quote = quote_spec,
      ENTRYPOINT_TEMPLATE =
        (\<lambda>procs. concat (map (\<lambda>p. proc_name p @ js '') exec '' @ command p @ js '';; '') procs)),
      DOCKERFILE_TEMPLATE = (\<lambda>i. js ''FROM '' @ i)\<rparr>"

definition sim_host :: sim where
  "sim_host = \<lparr>sim_stamps = [], sim_files = [], sim_images = [], sim_registry = []\<rparr>"

definition sim_world :: "sim world" where
  "sim_world = \<lparr>host = sim_host, trace = []\<rparr>"

text \<open>The requirements of the service \<open>x\<close> at the revision \<open>abc\<close>.\<close>

definition sim_requirements :: "jsstring \<Rightarrow> jsval" where
  "sim_requirements k =
     (if k = js ''repo-x-dir'' then Str (js ''/b/repo-x'')
      else if k = js ''repo-x-exact-source'' then Str (js ''https://example.com/x#abc'')
      else if k = js ''repo-bp'' then Str (js ''/b/repo-bp'')
      else if k = js ''service-x-built-app-dir'' then Str (js ''/b/service-x/app'')
      else if k = js ''service-x-docker-image'' then Str (js ''tc/x:abc'')
      else if k = js ''service-x-image-on-registry'' then Bool False
      else Undefined)"

definition sim_cfg :: cfg where
  "sim_cfg = \<lparr>docker = \<lparr>repositoryPrefix = Str (js ''tc/'')\<rparr>\<rparr>"

definition sim_spec :: spec where
  "sim_spec =
     \<lparr>build = \<lparr>repositories =
        [\<lparr>repo_name = js ''x'',
          service = \<lparr>buildtype = js ''heroku-buildpack'', stack = js ''heroku-16'',
                     buildpack = js ''https://github.com/heroku/bp''\<rparr>\<rparr>]\<rparr>\<rparr>"











definition sim_world_local :: "bool \<Rightarrow> sim world" where
  "sim_world_local on_registry =
     \<lparr>host = \<lparr>sim_stamps = [], sim_files = [],
               sim_images = [\<lparr>RepoTags = None\<rparr>, \<lparr>RepoTags = Some [js ''tc/x:abc'']\<rparr>],
               sim_registry = (if on_registry then [js ''tc/x:abc''] else [])\<rparr>,
      trace = []\<rparr>"

definition sim_tasks :: "sim task list" where
  "sim_tasks =
     [pull_task sim_env (js ''/b'') (js ''heroku/heroku:16''),
      pull_task sim_env (js ''/b'') (js ''heroku/heroku:16-build''),
      clone_task sim_env (js ''/b'') (js ''https://github.com/heroku/bp'') (Str (js ''bp'')),
      compile_task sim_env (js ''/b'') (js ''/b/service-x'') (js ''x'')
        (js ''heroku/heroku:16-build'') (Str (js ''bp'')),
      build_image_task sim_env (js ''/b'') (js ''/b/service-x'') sim_cfg (js ''x'')
        (js ''heroku/heroku:16''),
      docs_task sim_env (js ''/b'') (js ''/b/service-x'') (js ''x'') (js ''heroku/heroku:16''),
      push_task sim_env (js ''/b'') (js ''/b/service-x'') (js ''x'') \<lparr>push = Bool True\<rparr>]"

definition sim_generate :: "(sim, sim task list) io" where
  "sim_generate =
     generateServiceTasks sim_env [] (js ''/b'') sim_spec sim_cfg (js ''x'') \<lparr>push = Bool True\<rparr>"

section \<open>The pattern of a Procfile line\<close>

lemma try_spaces_SomeD:
  "try_spaces k r = Some c \<Longrightarrow>
     \<exists>j. 1 \<le> j \<and> j \<le> k \<and> c = drop j r \<and> list_all (\<lambda>c. \<not> is_line_terminator c) c"
proof (induction k)
  case 0
  then show ?case by simp
next
  case (Suc k)
  show ?case
  proof (cases "list_all (\<lambda>c. \<not> is_line_terminator c) (drop (Suc k) r)")
    case True
    with Suc.prems have "c = drop (Suc k) r" by simp
    with True show ?thesis by (intro exI [of _ "Suc k"]) simp
  next
    case False
    with Suc.prems have "try_spaces k r = Some c" by simp
    from Suc.IH [OF this] obtain j where "1 \<le> j" "j \<le> k" "c = drop j r"
      "list_all (\<lambda>c. \<not> is_line_terminator c) c" by blast
    then show ?thesis by (intro exI [of _ j]) simp
  qed
qed

lemma try_spaces_SomeI:
  "1 \<le> j \<Longrightarrow> j \<le> k \<Longrightarrow> list_all (\<lambda>c. \<not> is_line_terminator c) (drop j r) \<Longrightarrow>
     try_spaces k r \<noteq> None"
proof (induction k)
  case 0
  then show ?case by simp
next
  case (Suc k)
  show ?case
  proof (cases "j = Suc k")
    case True
    with Suc.prems show ?thesis by simp
  next
    case False
    with Suc.prems have "j \<le> k" by simp
    with Suc show ?thesis by simp
  qed
qed

lemma take_takeWhile_all:
  "j \<le> length (takeWhile P r) \<Longrightarrow> list_all P (take j r)"
proof -
  assume "j \<le> length (takeWhile P r)"
  then have "take j r = take j (takeWhile P r)"
    by (metis takeWhile_dropWhile_id append_take_drop_id take_append take_all_iff 
        append_Nil2 diff_is_0_eq' take_0 length_take min.absorb2 append_eq_conv_conj)
  moreover have "list_all P (takeWhile P r)"
    by (simp add: list_all_iff) (meson set_takeWhileD)
  ultimately show ?thesis
    by (metis append_take_drop_id list_all_append)
qed

lemma match_spaces_SomeD:
  assumes "match_spaces r = Some c"
  shows "\<exists>ws. ws \<noteq> [] \<and> list_all is_space ws \<and> r = ws @ c
           \<and> list_all (\<lambda>c. \<not> is_line_terminator c) c"
proof -
  from assms obtain j where j: "1 \<le> j" "j \<le> length (takeWhile is_space r)" "c = drop j r"
    "list_all (\<lambda>c. \<not> is_line_terminator c) c"
    unfolding match_spaces_def by (blast dest: try_spaces_SomeD)
  have "list_all is_space (take j r)" using j(2) by (rule take_takeWhile_all)
  moreover have "take j r \<noteq> []"
    using j(1,2) by (metis length_takeWhile_le le_trans not_one_le_zero take_eq_Nil list.size(3))
  moreover have "r = take j r @ c" using j(3) by simp
  ultimately show ?thesis using j(4) by blast
qed

lemma length_takeWhile_append_ge:
  "list_all P ws \<Longrightarrow> length ws \<le> length (takeWhile P (ws @ c))"
  by (induction ws) simp_all

lemma match_spaces_SomeI:
  assumes "ws \<noteq> []" "list_all is_space ws" "list_all (\<lambda>c. \<not> is_line_terminator c) c"
  shows "match_spaces (ws @ c) \<noteq> None"
proof -
  have "1 \<le> length ws" using assms(1) by (cases ws) simp_all
  moreover have "length ws \<le> length (takeWhile is_space (ws @ c))"
    using assms(2) by (rule length_takeWhile_append_ge)
  moreover have "list_all (\<lambda>c. \<not> is_line_terminator c) (drop (length ws) (ws @ c))"
    using assms(3) by simp
  ultimately show ?thesis unfolding match_spaces_def by (rule try_spaces_SomeI)
qed

lemma match_colon_SomeD:
  assumes "match_colon r = Some c"
  shows "\<exists>ws. ws \<noteq> [] \<and> list_all is_space ws \<and> (r = ws @ c \<or> r = colon # ws @ c)
           \<and> list_all (\<lambda>c. \<not> is_line_terminator c) c"
proof -
  from assms have "match_spaces r = Some c \<or> (\<exists>r'. r = colon # r' \<and> match_spaces r' = Some c)"
    by (auto simp: match_colon_def split: list.splits if_splits option.splits)
  then show ?thesis by (auto dest!: match_spaces_SomeD)
qed

lemma match_colon_SomeI:
  assumes "ws \<noteq> []" "list_all is_space ws" "list_all (\<lambda>c. \<not> is_line_terminator c) c"
  shows "match_colon (ws @ c) \<noteq> None" "match_colon (colon # ws @ c) \<noteq> None"
proof -
  have m: "match_spaces (ws @ c) \<noteq> None" using assms by (rule match_spaces_SomeI)
  then show "match_colon (ws @ c) \<noteq> None"
    by (auto simp: match_colon_def split: list.splits option.splits)
  from m show "match_colon (colon # ws @ c) \<noteq> None"
    by (auto simp: match_colon_def split: list.splits option.splits)
qed

lemma try_name_SomeD:
  "try_name n s = Some (a, c) \<Longrightarrow>
     \<exists>j. 1 \<le> j \<and> j \<le> n \<and> a = take j s \<and> match_colon (drop j s) = Some c"
proof (induction n)
  case 0
  then show ?case by simp
next
  case (Suc n)
  show ?case
  proof (cases "match_colon (drop (Suc n) s)")
    case None
    with Suc.prems have "try_name n s = Some (a, c)" by simp
    from Suc.IH [OF this] obtain j where "1 \<le> j" "j \<le> n" "a = take j s"
      "match_colon (drop j s) = Some c" by blast
    then show ?thesis by (intro exI [of _ j]) simp
  next
    case (Some cmd)
    with Suc.prems have "a = take (Suc n) s" "cmd = c" by simp_all
    with Some show ?thesis by (intro exI [of _ "Suc n"]) simp
  qed
qed

lemma try_name_SomeI:
  "1 \<le> j \<Longrightarrow> j \<le> n \<Longrightarrow> match_colon (drop j s) \<noteq> None \<Longrightarrow> try_name n s \<noteq> None"
proof (induction n)
  case 0
  then show ?case by simp
next
  case (Suc n)
  show ?case
  proof (cases "j = Suc n")
    case True
    with Suc.prems show ?thesis by (auto split: option.splits)
  next
    case False
    with Suc.prems have "j \<le> n" by simp
    with Suc show ?thesis by (auto split: option.splits)
  qed
qed

lemma regex_exec_SomeD:
  assumes "regex_exec s = Some (a, c)"
  shows "a \<noteq> [] \<and> colon \<notin> set a \<and>
     (\<exists>ws. ws \<noteq> [] \<and> list_all is_space ws \<and> (s = a @ ws @ c \<or> s = a @ colon # ws @ c))
     \<and> list_all (\<lambda>c. \<not> is_line_terminator c) c"
proof -
  from assms obtain j where j: "1 \<le> j" "j \<le> length (takeWhile (\<lambda>c. c \<noteq> colon) s)"
    "a = take j s" "match_colon (drop j s) = Some c"
    unfolding regex_exec_def by (blast dest: try_name_SomeD)
  from match_colon_SomeD [OF j(4)] obtain ws where ws: "ws \<noteq> []" "list_all is_space ws"
    "drop j s = ws @ c \<or> drop j s = colon # ws @ c" "list_all (\<lambda>c. \<not> is_line_terminator c) c"
    by blast
  have "list_all (\<lambda>c. c \<noteq> colon) a" unfolding j(3) using j(2) by (rule take_takeWhile_all)
  then have "colon \<notin> set a" by (auto simp: list_all_iff)
  moreover have "a \<noteq> []"
    using j(1,2,3) by (metis length_takeWhile_le le_trans not_one_le_zero take_eq_Nil list.size(3))
  moreover have "s = a @ drop j s" using j(3) by simp
  ultimately show ?thesis using ws by metis
qed

lemma regex_exec_SomeI:
  assumes "a \<noteq> []" "colon \<notin> set a" "ws \<noteq> []" "list_all is_space ws"
    "list_all (\<lambda>c. \<not> is_line_terminator c) c" "s = a @ ws @ c \<or> s = a @ colon # ws @ c"
  shows "regex_exec s \<noteq> None"
proof -
  have "1 \<le> length a" using assms(1) by (cases a) simp_all
  moreover have "length a \<le> length (takeWhile (\<lambda>c. c \<noteq> colon) s)"
  proof -
    have "list_all (\<lambda>c. c \<noteq> colon) a" using assms(2) by (auto simp: list_all_iff)
    then show ?thesis using assms(6) by (auto intro: length_takeWhile_append_ge)
  qed
  moreover have "match_colon (drop (length a) s) \<noteq> None"
    using assms(6) match_colon_SomeI [OF assms(3,4,5)] by auto
  ultimately show ?thesis unfolding regex_exec_def by (rule try_name_SomeI)
qed

lemma line_form_regex: "line_form s = (regex_exec s \<noteq> None)"
proof
  assume "line_form s"
  then obtain a ws c where "a \<noteq> []" "colon \<notin> set a" "ws \<noteq> []" "list_all is_space ws"
    "list_all (\<lambda>u. \<not> is_line_terminator u) c" "s = a @ ws @ c \<or> s = a @ colon # ws @ c"
    unfolding line_form_def by blast
  then show "regex_exec s \<noteq> None" by (rule regex_exec_SomeI)
next
  assume "regex_exec s \<noteq> None"
  then obtain a c where "regex_exec s = Some (a, c)" by auto
  from regex_exec_SomeD [OF this] show "line_form s"
    unfolding line_form_def by blast
qed

lemma regex_exec_Nil: "regex_exec [] = None"
  by (simp add: regex_exec_def)

lemma trim_spaces:
  assumes "list_all is_space line"
  shows "trim line = []"
proof -
  from assms have d: "dropWhile is_space line = []"
    by (simp only: dropWhile_eq_Nil_conv list_all_iff)
  show ?thesis by (simp only: trim_def d rev.simps dropWhile.simps)
qed

section \<open>The parse of a Procfile\<close>

lemma map_throwing_find:
  "map_throwing f xs =
     (case find (\<lambda>x. isl (f x)) xs of
        Some x \<Rightarrow> Inl (projl (f x))
      | None \<Rightarrow> Inr (map (\<lambda>x. projr (f x)) xs))"
  by (induction xs) (auto split: sum.splits option.splits)

lemma parse_line_cases:
  "parse_line q line =
     (if \<not> remaining line then Inr None
      else if unexpected line then Inl (Error (js ''unexpected line in Procfile: '' @ line))
      else Inr (Some \<lparr>proc_name = fst (the (regex_exec (trim line))),
                      command = q [snd (the (regex_exec (trim line)))]\<rparr>))"
  by (auto simp: parse_line_def remaining_def unexpected_def split: option.splits)

lemma isl_parse_line: "isl (parse_line q line) = unexpected line"
  by (simp add: parse_line_cases unexpected_def)

lemma parse_procfile_find:
  "parse_procfile q text =
     (case find unexpected (split 0x0A text) of
        Some l \<Rightarrow> Inl (Error (js ''unexpected line in Procfile: '' @ l))
      | None \<Rightarrow> Inr (map the (filter (\<lambda>l. l \<noteq> None)
                  (map (\<lambda>l. projr (parse_line q l)) (split 0x0A text)))))"
proof (cases "find unexpected (split 0x0A text)")
  case None
  then show ?thesis
    by (simp add: parse_procfile_def map_throwing_find isl_parse_line)
next
  case (Some l)
  then have "unexpected l" by (auto simp: find_Some_iff)
  then have "projl (parse_line q l) = Error (js ''unexpected line in Procfile: '' @ l)"
    by (simp add: parse_line_cases unexpected_def)
  with Some show ?thesis
    by (simp add: parse_procfile_def map_throwing_find isl_parse_line)
qed

lemma records_length:
  "find unexpected ls = None \<Longrightarrow>
   length (filter (\<lambda>l. l \<noteq> None) (map (\<lambda>l. projr (parse_line q l)) ls))
     = length (filter remaining ls)"
proof (induction ls)
  case Nil
  then show ?case by simp
next
  case (Cons l ls)
  then have "\<not> unexpected l" "find unexpected ls = None" by (auto split: if_splits)
  with Cons.IH show ?case by (simp add: parse_line_cases)
qed

lemma find_unexpected_ex: "l \<in> set ls \<Longrightarrow> unexpected l \<Longrightarrow> find unexpected ls \<noteq> None"
  by (auto simp: find_None_iff)

lemma space_line_unexpected:
  assumes "line \<noteq> []" "list_all is_space line"
  shows "unexpected line"
proof -
  from assms obtain c cs where l: "line = c # cs" "is_space c" by (cases line) auto
  then have "c \<noteq> 0x23" by (auto simp: is_space_def)
  with l have "\<not> startsWith line (js ''#'')" by (simp add: startsWith_def js_def)
  with assms show ?thesis by (simp add: unexpected_def remaining_def trim_spaces regex_exec_Nil)
qed

lemmas procfile_eval =
  parse_procfile_def parse_line_def startsWith_def trim_def regex_exec_def js_def colon_def
  match_colon_def match_spaces_def is_space_def is_line_terminator_def

text \<open>
  C4, as amended. Of the lines that are neither empty nor begin with \<open>#\<close>, a line parses
  if and only if its trimmed text is a name (not empty, without a colon), an optional colon,
  at least one whitespace unit and a command without a line terminator; every other such
  line makes \<open>parse_line\<close> throw the error that ends with the line. The whole parse throws
  that error for the first such line, and no record is returned; when there is none, it
  returns one record for each remaining line. The record of a line has a name and a command
  text that split the trimmed line in this way, the command quoted.
\<close>

theorem procfile_line_pattern:
  fixes q :: "jsstring list \<Rightarrow> jsstring"
  shows "(remaining line \<longrightarrow>
            ((\<exists>p. parse_line q line = Inr (Some p)) = line_form (trim line))
          \<and> (\<not> line_form (trim line) \<longrightarrow>
               parse_line q line = Inl (Error (js ''unexpected line in Procfile: '' @ line))))
       \<and> (\<not> remaining line \<longrightarrow> parse_line q line = Inr None)
       \<and> (\<forall>l. find (\<lambda>l. remaining l \<and> \<not> line_form (trim l)) (split 0x0A text) = Some l \<longrightarrow>
            parse_procfile q text = Inl (Error (js ''unexpected line in Procfile: '' @ l)))
       \<and> (find (\<lambda>l. remaining l \<and> \<not> line_form (trim l)) (split 0x0A text) = None \<longrightarrow>
            (\<exists>ps. parse_procfile q text = Inr ps
               \<and> length ps = length (filter remaining (split 0x0A text))))
       \<and> (\<forall>p. parse_line q line = Inr (Some p) \<longrightarrow>
            (\<exists>ws c. proc_name p \<noteq> [] \<and> colon \<notin> set (proc_name p)
               \<and> ws \<noteq> [] \<and> list_all is_space ws
               \<and> list_all (\<lambda>u. \<not> is_line_terminator u) c
               \<and> command p = q [c]
               \<and> (trim line = proc_name p @ ws @ c \<or> trim line = proc_name p @ colon # ws @ c)))"
proof -
  have u: "(\<lambda>l. remaining l \<and> \<not> line_form (trim l)) = unexpected"
    unfolding unexpected_def line_form_regex by (simp only: not_not)
  have 1: "remaining line \<longrightarrow>
            ((\<exists>p. parse_line q line = Inr (Some p)) = line_form (trim line))
          \<and> (\<not> line_form (trim line) \<longrightarrow>
               parse_line q line = Inl (Error (js ''unexpected line in Procfile: '' @ line)))"
    by (simp add: parse_line_cases unexpected_def line_form_regex)
  have 2: "\<not> remaining line \<longrightarrow> parse_line q line = Inr None"
    by (simp add: parse_line_cases)
  have 3: "\<forall>l. find (\<lambda>l. remaining l \<and> \<not> line_form (trim l)) (split 0x0A text) = Some l \<longrightarrow>
            parse_procfile q text = Inl (Error (js ''unexpected line in Procfile: '' @ l))"
    unfolding u by (simp add: parse_procfile_find)
  have 4: "find (\<lambda>l. remaining l \<and> \<not> line_form (trim l)) (split 0x0A text) = None \<longrightarrow>
            (\<exists>ps. parse_procfile q text = Inr ps
               \<and> length ps = length (filter remaining (split 0x0A text)))"
    unfolding u
  proof
    assume n: "find unexpected (split 0x0A text) = None"
    have "parse_procfile q text = Inr (map the (filter (\<lambda>l. l \<noteq> None)
                  (map (\<lambda>l. projr (parse_line q l)) (split 0x0A text))))"
      by (simp only: parse_procfile_find n option.case)
    then show "\<exists>ps. parse_procfile q text = Inr ps
               \<and> length ps = length (filter remaining (split 0x0A text))"
      by (metis records_length [OF n] length_map)
  qed
  have 5: "\<forall>p. parse_line q line = Inr (Some p) \<longrightarrow>
            (\<exists>ws c. proc_name p \<noteq> [] \<and> colon \<notin> set (proc_name p)
               \<and> ws \<noteq> [] \<and> list_all is_space ws
               \<and> list_all (\<lambda>u. \<not> is_line_terminator u) c
               \<and> command p = q [c]
               \<and> (trim line = proc_name p @ ws @ c \<or> trim line = proc_name p @ colon # ws @ c))"
  proof (intro allI impI)
    fix p
    assume "parse_line q line = Inr (Some p)"
    then obtain a c where ac: "regex_exec (trim line) = Some (a, c)"
      and p: "p = \<lparr>proc_name = a, command = q [c]\<rparr>"
      by (auto simp: parse_line_def split: if_splits option.splits)
    from regex_exec_SomeD [OF ac] obtain ws where "a \<noteq> []" "colon \<notin> set a" "ws \<noteq> []"
      "list_all is_space ws" "trim line = a @ ws @ c \<or> trim line = a @ colon # ws @ c"
      "list_all (\<lambda>u. \<not> is_line_terminator u) c"
      by blast
    with p show "\<exists>ws c. proc_name p \<noteq> [] \<and> colon \<notin> set (proc_name p)
               \<and> ws \<noteq> [] \<and> list_all is_space ws
               \<and> list_all (\<lambda>u. \<not> is_line_terminator u) c
               \<and> command p = q [c]
               \<and> (trim line = proc_name p @ ws @ c \<or> trim line = proc_name p @ colon # ws @ c)"
      by (intro exI [of _ ws] exI [of _ c]) simp
  qed
  from 1 2 3 4 5 show ?thesis by (intro conjI)
qed

theorem procfile_line_pattern_witness:
  "remaining (js ''web: node app.js'')
   \<and> line_form (trim (js ''web: node app.js''))
   \<and> parse_line quote_spec (js ''web: node app.js'')
       = Inr (Some \<lparr>proc_name = js ''web'', command = quote_spec [js ''node app.js'']\<rparr>)
   \<and> remaining (js ''badline'')
   \<and> \<not> line_form (trim (js ''badline''))
   \<and> parse_line quote_spec (js ''badline'')
       = Inl (Error (js ''unexpected line in Procfile: badline''))
   \<and> \<not> remaining (js ''# comment'')
   \<and> parse_line quote_spec (js ''# comment'') = Inr None
   \<and> find (\<lambda>l. remaining l \<and> \<not> line_form (trim l))
         (split 0x0A (js ''web: node app.js'' @ [0x0A] @ js ''badline'')) = Some (js ''badline'')
   \<and> parse_procfile quote_spec (js ''web: node app.js'' @ [0x0A] @ js ''badline'')
       = Inl (Error (js ''unexpected line in Procfile: badline''))
   \<and> find (\<lambda>l. remaining l \<and> \<not> line_form (trim l)) (split 0x0A (js ''web: node app.js''))
       = None
   \<and> parse_procfile quote_spec (js ''web: node app.js'')
       = Inr [\<lparr>proc_name = js ''web'', command = quote_spec [js ''node app.js'']\<rparr>]"
proof -
  note line1 = procfile_line_pattern [of "js ''web: node app.js''" quote_spec "[]"]
  note line2 = procfile_line_pattern [of "js ''badline''" quote_spec "[]"]
  note line3 = procfile_line_pattern [of "js ''# comment''" quote_spec "[]"]
  note text1 = procfile_line_pattern [of "[]" quote_spec
      "js ''web: node app.js'' @ [0x0A] @ js ''badline''"]
  have r1: "remaining (js ''web: node app.js'')"
    and r2: "remaining (js ''badline'')"
    and r3: "\<not> remaining (js ''# comment'')"
    by (simp_all add: remaining_def startsWith_def js_def)
  have p1: "parse_line quote_spec (js ''web: node app.js'')
       = Inr (Some \<lparr>proc_name = js ''web'', command = quote_spec [js ''node app.js'']\<rparr>)"
    by (simp add: procfile_eval)
  have p2: "parse_line quote_spec (js ''badline'')
       = Inl (Error (js ''unexpected line in Procfile: badline''))"
    by (simp add: procfile_eval)
  have p3: "parse_line quote_spec (js ''# comment'') = Inr None"
    by (rule line3 [THEN conjunct2, THEN conjunct1, THEN mp, OF r3])
  have "\<exists>p. parse_line quote_spec (js ''web: node app.js'') = Inr (Some p)"
    unfolding p1 by blast
  with line1 [THEN conjunct1, THEN mp, OF r1, THEN conjunct1]
  have f1: "line_form (trim (js ''web: node app.js''))" by (rule iffD1)
  have "\<not> (\<exists>p. parse_line quote_spec (js ''badline'') = Inr (Some p))"
    unfolding p2 by simp
  with line2 [THEN conjunct1, THEN mp, OF r2, THEN conjunct1]
  have f2: "\<not> line_form (trim (js ''badline''))" by (simp only: simp_thms)
  have s1: "split 0x0A (js ''web: node app.js'' @ [0x0A] @ js ''badline'')
              = [js ''web: node app.js'', js ''badline'']"
    and s2: "split 0x0A (js ''web: node app.js'') = [js ''web: node app.js'']"
    by (simp_all add: js_def)
  have n1: "find (\<lambda>l. remaining l \<and> \<not> line_form (trim l))
         (split 0x0A (js ''web: node app.js'' @ [0x0A] @ js ''badline'')) = Some (js ''badline'')"
    by (simp only: s1 find.simps r1 r2 f1 f2 simp_thms if_True if_False)
  have n2: "find (\<lambda>l. remaining l \<and> \<not> line_form (trim l))
         (split 0x0A (js ''web: node app.js'')) = None"
    by (simp only: s2 find.simps r1 f1 simp_thms if_True if_False)
  have "parse_procfile quote_spec (js ''web: node app.js'' @ [0x0A] @ js ''badline'')
       = Inl (Error (js ''unexpected line in Procfile: '' @ js ''badline''))"
    by (rule text1 [THEN conjunct2, THEN conjunct2, THEN conjunct1, THEN spec, THEN mp, OF n1])
  then have q1: "parse_procfile quote_spec (js ''web: node app.js'' @ [0x0A] @ js ''badline'')
       = Inl (Error (js ''unexpected line in Procfile: badline''))"
    by (simp add: js_def)
  have q2: "parse_procfile quote_spec (js ''web: node app.js'')
       = Inr [\<lparr>proc_name = js ''web'', command = quote_spec [js ''node app.js'']\<rparr>]"
    by (simp add: procfile_eval)
  show ?thesis
    by (intro conjI) (fact r1 f1 p1 r2 f2 p2 r3 p3 n1 q1 n2 q2)+
qed

text \<open>
  C4 as stated fails in both directions. \<open>web:node\<close> is a name, a colon, no whitespace and
  a command, and the parse throws; \<open>bad line\<close> has no colon and parses; in \<open>a b:c\<close> the
  captured name is \<open>a\<close>, not everything up to the first colon.
\<close>

theorem procfile_line_pattern_counterexample:
  "parse_procfile quote_spec (js ''web:node'')
     = Inl (Error (js ''unexpected line in Procfile: web:node''))
   \<and> parse_procfile quote_spec (js ''bad line'')
     = Inr [\<lparr>proc_name = js ''bad'', command = quote_spec [js ''line'']\<rparr>]
   \<and> parse_procfile quote_spec (js ''a b:c'')
     = Inr [\<lparr>proc_name = js ''a'', command = quote_spec [js ''b:c'']\<rparr>]"
  by (simp add: procfile_eval)

text \<open>
  C5, as amended. The text of the four lines \<open>web: node app.js\<close>, \<open># comment\<close>, an empty
  line and \<open>worker: node worker.js\<close> gives exactly two records, in the order of the input:
  the names are \<open>web\<close> and \<open>worker\<close>, and each command is what \<open>quote\<close> returns for the
  one-element array of the command text (\<open>node app.js\<close>, \<open>node worker.js\<close>).
\<close>

theorem procfile_example:
  "parse_procfile q
     (js ''web: node app.js'' @ [0x0A] @ js ''# comment'' @ [0x0A, 0x0A]
        @ js ''worker: node worker.js'')
   = Inr [\<lparr>proc_name = js ''web'', command = q [js ''node app.js'']\<rparr>,
          \<lparr>proc_name = js ''worker'', command = q [js ''node worker.js'']\<rparr>]"
  by (simp add: procfile_eval)

text \<open>
  C5 as stated has the command text itself in the records. The source stores
  \<open>quote([parts[2]])\<close>: with a quoting function that puts the token between single quotes
  the records differ from the stated ones.
\<close>

theorem procfile_example_counterexample:
  "parse_procfile quote_spec
     (js ''web: node app.js'' @ [0x0A] @ js ''# comment'' @ [0x0A, 0x0A]
        @ js ''worker: node worker.js'')
   \<noteq> Inr [\<lparr>proc_name = js ''web'', command = js ''node app.js''\<rparr>,
          \<lparr>proc_name = js ''worker'', command = js ''node worker.js''\<rparr>]"
  by (simp add: procfile_eval)

text \<open>
  C10. A line that is not empty and has whitespace units only is neither dropped as blank
  (the test \<open>!line\<close> sees the line before \<open>trim\<close>) nor as a comment; its trimmed text is
  empty, the pattern fails on it, and \<open>parse_line\<close> throws. A text with such a line makes the
  whole parse throw.
\<close>

theorem whitespace_line_throws:
  fixes q :: "jsstring list \<Rightarrow> jsstring"
  assumes "line \<noteq> []" and "list_all is_space line"
  shows "remaining line \<and> trim line = [] \<and> regex_exec (trim line) = None
     \<and> parse_line q line = Inl (Error (js ''unexpected line in Procfile: '' @ line))
     \<and> (line \<in> set (split 0x0A text) \<longrightarrow> (\<exists>e. parse_procfile q text = Inl e))"
proof -
  have u: "unexpected line" using assms by (rule space_line_unexpected)
  then have r: "remaining line" by (simp add: unexpected_def)
  have t: "trim line = []" using assms(2) by (rule trim_spaces)
  have p: "parse_line q line = Inl (Error (js ''unexpected line in Procfile: '' @ line))"
    using u by (simp add: parse_line_cases unexpected_def)
  have "\<exists>e. parse_procfile q text = Inl e" if "line \<in> set (split 0x0A text)"
  proof -
    from that u have "find unexpected (split 0x0A text) \<noteq> None" by (rule find_unexpected_ex)
    then obtain l where "find unexpected (split 0x0A text) = Some l" by blast
    then show ?thesis by (simp add: parse_procfile_find)
  qed
  with r t p show ?thesis by (simp add: regex_exec_Nil)
qed

theorem whitespace_line_throws_witness:
  "[0x20] \<noteq> ([] :: jsstring) \<and> list_all is_space [0x20]
   \<and> parse_line quote_spec [0x20] = Inl (Error (js ''unexpected line in Procfile:  ''))
   \<and> [0x20] \<in> set (split 0x0A (js ''web: node app.js'' @ [0x0A, 0x20]))
   \<and> (\<exists>e. parse_procfile quote_spec (js ''web: node app.js'' @ [0x0A, 0x20]) = Inl e)"
proof -
  have a: "[0x20] \<noteq> ([] :: jsstring)" and b: "list_all is_space [0x20]"
    by (simp_all add: is_space_def)
  have c: "[0x20] \<in> set (split 0x0A (js ''web: node app.js'' @ [0x0A, 0x20]))"
    by (simp add: js_def)
  from whitespace_line_throws [OF a b, of quote_spec "js ''web: node app.js'' @ [0x0A, 0x20]"] a b c
  show ?thesis by (simp add: js_def)
qed

section \<open>Runs: sequencing and the trace\<close>


lemma io_bind_return: "io_bind (io_return a) f = f a"
  by (rule ext) (simp add: io_bind_def io_return_def)

lemma io_bind_throw: "io_bind (io_throw e) f = io_throw e"
  by (rule ext) (simp add: io_bind_def io_throw_def)

lemma io_bind_cases:
  assumes "io_bind m f w = (r, w')"
  obtains (throws) e where "m w = (Inl e, w')" "r = Inl e"
        | (returns) a w1 where "m w = (Inr a, w1)" "f a w1 = (r, w')"
proof (cases "m w")
  case (Pair r1 w1)
  show ?thesis
  proof (cases r1)
    case (Inl e)
    with Pair assms have "m w = (Inl e, w')" "r = Inl e" by (simp_all add: io_bind_def)
    then show ?thesis by (rule throws)
  next
    case (Inr a)
    with Pair assms have "m w = (Inr a, w1)" "f a w1 = (r, w')" by (simp_all add: io_bind_def)
    then show ?thesis by (rule returns)
  qed
qed















lemma list_all_butlast: "list_all P xs \<Longrightarrow> list_all P (butlast xs)"
  by (auto simp: list_all_iff dest: in_set_butlastD)

section \<open>The fields of the nodes and the simulated host\<close>

lemma task_fields:
  "title (pull_task env baseDir i) = js ''Pull Docker Image '' @ i"
  "requires (pull_task env baseDir i) = []"
  "provides (pull_task env baseDir i) = [js ''docker-image-'' @ i]"
  "run (pull_task env baseDir i) = pull_run env baseDir i"
  "title (clone_task env baseDir u n) = js ''Clone '' @ to_string n"
  "requires (clone_task env baseDir u n) = []"
  "provides (clone_task env baseDir u n) = [js ''repo-'' @ to_string n]"
  "run (clone_task env baseDir u n) = clone_run env baseDir u n"
  "title (compile_task env baseDir workDir name buildImage n) = js ''Service '' @ name @ js '' - Compile''"
  "requires (compile_task env baseDir workDir name buildImage n) =
     [js ''repo-'' @ name @ js ''-dir'', js ''repo-'' @ name @ js ''-exact-source'',
      js ''docker-image-'' @ buildImage, js ''repo-'' @ to_string n]"
  "provides (compile_task env baseDir workDir name buildImage n) = [js ''service-'' @ name @ js ''-built-app-dir'']"
  "run (compile_task env baseDir workDir name buildImage n) = compile_run env baseDir workDir name buildImage n"
  "title (build_image_task env baseDir workDir cfg name stackImage) = js ''Service '' @ name @ js '' - Build Image''"
  "requires (build_image_task env baseDir workDir cfg name stackImage) =
     [js ''repo-'' @ name @ js ''-exact-source'', js ''service-'' @ name @ js ''-built-app-dir'',
      js ''docker-image-'' @ stackImage]"
  "provides (build_image_task env baseDir workDir cfg name stackImage) =
     [js ''service-'' @ name @ js ''-docker-image'', js ''service-'' @ name @ js ''-image-on-registry'']"
  "run (build_image_task env baseDir workDir cfg name stackImage) = build_image_run env baseDir workDir cfg name stackImage"
  "title (docs_task env baseDir workDir name stackImage) = js ''Service '' @ name @ js '' - Generate Docs''"
  "requires (docs_task env baseDir workDir name stackImage) =
     [js ''repo-'' @ name @ js ''-exact-source'', js ''service-'' @ name @ js ''-built-app-dir'',
      js ''docker-image-'' @ stackImage]"
  "provides (docs_task env baseDir workDir name stackImage) = [js ''docs-'' @ name @ js ''-dir'']"
  "run (docs_task env baseDir workDir name stackImage) = docs_run env baseDir workDir name stackImage"
  "title (push_task env baseDir workDir name cmdOptions) = js ''Service '' @ name @ js '' - Push Image''"
  "requires (push_task env baseDir workDir name cmdOptions) =
     [js ''service-'' @ name @ js ''-docker-image'', js ''service-'' @ name @ js ''-image-on-registry'']"
  "provides (push_task env baseDir workDir name cmdOptions) = []"
  "run (push_task env baseDir workDir name cmdOptions) = push_run env baseDir workDir name cmdOptions"
  by (simp_all add: pull_task_def clone_task_def compile_task_def build_image_task_def
      docs_task_def push_task_def)

lemma sim_env_simps:
  "path_join sim_env = (\<lambda>ps. case ps of [] \<Rightarrow> js ''.'' | p # ps' \<Rightarrow> foldl (\<lambda>a b. a @ js ''/'' @ b) p ps')"
  "path_dirname sim_env = (\<lambda>p. rev (tl (dropWhile (\<lambda>c. c \<noteq> 0x2F) (rev p))))"
  "existsSync sim_env = (\<lambda>p h. map_of (sim_files h) p \<noteq> None)"
  "mkdirSync sim_env = (\<lambda>p h. (Inr (), h\<lparr>sim_files := (p, []) # sim_files h\<rparr>))"
  "readFileSync sim_env =
        (\<lambda>p h. case map_of (sim_files h) p of
                  None \<Rightarrow> Inl (ToolError (js ''ENOENT''))
                | Some c \<Rightarrow> Inr c)"
  "writeFileSync sim_env = (\<lambda>p d m h. (Inr (), h\<lparr>sim_files := (p, d) # sim_files h\<rparr>))"
  "rimraf sim_env =
        (\<lambda>p h. (Inr (), h\<lparr>sim_stamps := filter (\<lambda>e. fst e \<noteq> p) (sim_stamps h),
                             sim_files := filter (\<lambda>e. \<not> startsWith (fst e) p) (sim_files h)\<rparr>))"
  "mkdirp sim_env = (\<lambda>p h. (Inr (), h))"
  "copy sim_env =
        (\<lambda>src dst h.
           (Inr (), h\<lparr>sim_files := (dst @ js ''/Procfile'', js ''web: node app.js'') # sim_files h\<rparr>))"
  "gitClone sim_env = (\<lambda>d u h. (Inr (), h))"
  "dockerRun sim_env = (\<lambda>a h. (Inr (), h))"
  "dockerPull sim_env = (\<lambda>i b h. (Inr (), h\<lparr>sim_images := \<lparr>RepoTags = Some [i]\<rparr> # sim_images h\<rparr>))"
  "dockerImages sim_env = (\<lambda>b h. Inr (sim_images h))"
  "dockerBuild sim_env =
        (\<lambda>a h. (Inr (), h\<lparr>sim_images := \<lparr>RepoTags = Some [build_tag a]\<rparr> # sim_images h\<rparr>))"
  "dockerRegistryCheck sim_env = (\<lambda>t h. Inr (list_ex (\<lambda>u. u = t) (sim_registry h)))"
  "dockerPush sim_env = (\<lambda>l t b h. (Inr (), h\<lparr>sim_registry := to_string t # sim_registry h\<rparr>))"
  "dirStamped sim_env = (\<lambda>d s h. map_of (sim_stamps h) d = Some s)"
  "stampDir sim_env = (\<lambda>d s h. (Inr (), h\<lparr>sim_stamps := (d, s) # sim_stamps h\<rparr>))"
  "quote sim_env = quote_spec"
  "ENTRYPOINT_TEMPLATE sim_env =
        (\<lambda>procs. concat (map (\<lambda>p. proc_name p @ js '') exec '' @ command p @ js '';; '') procs))"
  "DOCKERFILE_TEMPLATE sim_env = (\<lambda>i. js ''FROM '' @ i)"
  by (simp_all add: sim_env_def)

lemmas io_eval =
  io_bind_def io_return_def io_throw_def io_call_def io_probe_def logged_def io_read_def
  io_read_throwing_def io_lift_def step_def

lemmas sim_eval =
  sim_env_simps io_eval sim_requirements_def sim_world_def sim_host_def sim_cfg_def
  task_fields Let_def


lemma sim_tag:
  "to_string (repositoryPrefix (docker sim_cfg)) @ js ''x'' @ js '':''
     @ to_string (index (split 0x23 (js ''https://example.com/x#abc'')) 1) = js ''tc/x:abc''"
  by (simp add: sim_cfg_def js_def index_def)

lemma sim_generate_tasks: "fst (sim_generate sim_world) = Inr sim_tasks"
  by (simp add: sim_generate_def generateServiceTasks_def sim_tasks_def sim_spec_def sim_eval
      ensureTask_def startsWith_def index_def js_def)

lemma sim_generate_run:
  "sim_generate sim_world = (Inr sim_tasks, snd (sim_generate sim_world))"
  using sim_generate_tasks by (metis prod.collapse)


section \<open>Registration by title\<close>

lemma ensureTask_present: "\<exists>t\<in>set tasks. title t = title c \<Longrightarrow> ensureTask tasks c = tasks"
  by (auto simp: ensureTask_def find_None_iff)

lemma ensureTask_absent: "\<forall>t\<in>set tasks. title t \<noteq> title c \<Longrightarrow> ensureTask tasks c = tasks @ [c]"
  by (auto simp: ensureTask_def find_None_iff)

lemma ensureTask_has_title: "\<exists>t\<in>set (ensureTask tasks a). title t = title a"
  by (cases "\<exists>t\<in>set tasks. title t = title a")
     (auto simp: ensureTask_present ensureTask_absent)

lemma set_ensureTask: "set (ensureTask tasks c) \<subseteq> insert c (set tasks)"
  by (auto simp: ensureTask_def)

text \<open>
  C9. \<open>ensureTask\<close> leaves the collection as it is when a node of the collection has the
  title of the candidate. Registering two candidates with the same title is registering the
  first: in a collection with no node of that title, exactly one node has the title
  afterwards, the first candidate; from the empty collection the result is that one node.
\<close>

theorem ensureTask_first_wins:
  "((\<exists>t\<in>set tasks. title t = title c) \<longrightarrow> ensureTask tasks c = tasks)
   \<and> (title a = title b \<longrightarrow> ensureTask (ensureTask tasks a) b = ensureTask tasks a)
   \<and> (title a = title b \<and> (\<forall>t\<in>set tasks. title t \<noteq> title a) \<longrightarrow>
        filter (\<lambda>t. title t = title a) (ensureTask (ensureTask tasks a) b) = [a])
   \<and> (title a = title b \<longrightarrow> ensureTask (ensureTask [] a) b = [a])"
proof (intro conjI impI)
  assume "\<exists>t\<in>set tasks. title t = title c"
  then show "ensureTask tasks c = tasks" by (rule ensureTask_present)
next
  assume "title a = title b"
  with ensureTask_has_title [of tasks a]
  show "ensureTask (ensureTask tasks a) b = ensureTask tasks a"
    by (intro ensureTask_present) simp
next
  assume h: "title a = title b \<and> (\<forall>t\<in>set tasks. title t \<noteq> title a)"
  then have 1: "ensureTask tasks a = tasks @ [a]" by (intro ensureTask_absent) blast
  from h have 2: "ensureTask (tasks @ [a]) b = tasks @ [a]" by (intro ensureTask_present) simp
  from h have "filter (\<lambda>t. title t = title a) tasks = []" by (auto simp: filter_empty_conv)
  then show "filter (\<lambda>t. title t = title a) (ensureTask (ensureTask tasks a) b) = [a]"
    by (simp add: 1 2)
next
  assume "title a = title b"
  then show "ensureTask (ensureTask [] a) b = [a]" by (simp add: ensureTask_def)
qed

theorem ensureTask_first_wins_witness:
  "title (pull_task sim_env (js ''/b'') (js ''heroku/heroku:16''))
     = title ((pull_task sim_env (js ''/b'') (js ''heroku/heroku:16'')) \<lparr>provides := []\<rparr>)
   \<and> pull_task sim_env (js ''/b'') (js ''heroku/heroku:16'')
     \<noteq> (pull_task sim_env (js ''/b'') (js ''heroku/heroku:16'')) \<lparr>provides := []\<rparr>
   \<and> ensureTask (ensureTask [] (pull_task sim_env (js ''/b'') (js ''heroku/heroku:16'')))
        ((pull_task sim_env (js ''/b'') (js ''heroku/heroku:16'')) \<lparr>provides := []\<rparr>)
     = [pull_task sim_env (js ''/b'') (js ''heroku/heroku:16'')]
   \<and> (\<exists>t\<in>set [pull_task sim_env (js ''/b'') (js ''heroku/heroku:16'')].
         title t = title ((pull_task sim_env (js ''/b'') (js ''heroku/heroku:16''))
                            \<lparr>provides := []\<rparr>))
   \<and> ensureTask [pull_task sim_env (js ''/b'') (js ''heroku/heroku:16'')]
        ((pull_task sim_env (js ''/b'') (js ''heroku/heroku:16'')) \<lparr>provides := []\<rparr>)
     = [pull_task sim_env (js ''/b'') (js ''heroku/heroku:16'')]"
proof -
  let ?a = "pull_task sim_env (js ''/b'') (js ''heroku/heroku:16'')"
  have t: "title ?a = title (?a \<lparr>provides := []\<rparr>)" by simp
  have "provides ?a \<noteq> provides (?a \<lparr>provides := []\<rparr>)" by (simp add: task_fields)
  then have n: "?a \<noteq> ?a \<lparr>provides := []\<rparr>" by metis
  have e: "\<exists>t\<in>set [?a]. title t = title (?a \<lparr>provides := []\<rparr>)" by simp
  from ensureTask_first_wins [of "[]" ?a ?a "?a \<lparr>provides := []\<rparr>"] t
  have 1: "ensureTask (ensureTask [] ?a) (?a \<lparr>provides := []\<rparr>) = [?a]" by blast
  from ensureTask_first_wins [of "[?a]" "?a \<lparr>provides := []\<rparr>" ?a ?a] e
  have 2: "ensureTask [?a] (?a \<lparr>provides := []\<rparr>) = [?a]" by blast
  from t n e 1 2 show ?thesis by blast
qed

section \<open>Stamped stages: Compile and Generate Docs\<close>







lemma stamped_shape_result:
  assumes "io_bind (io_read (dirStamped env dir sources)) (\<lambda>stamped.
           if stamped then io_return (Skip pv)
           else io_bind (io_call (Rimraf dir) (rimraf env dir)) (\<lambda>_.
                io_bind steps (\<lambda>_.
                io_bind (io_call (StampDir dir sources) (stampDir env dir sources)) (\<lambda>_.
                io_return (Value pv))))) w = (Inr v, w')"
  shows "v = Skip pv \<or> v = Value pv"
  using assms
  by (auto simp: io_bind_def io_read_def io_return_def io_call_def logged_def
      split: if_splits prod.splits sum.splits)



section \<open>The nodes that \<open>generateServiceTasks\<close> adds\<close>

lemma generateServiceTasks_nodes:
  assumes "generateServiceTasks env tasks baseDir spec cfg name cmdOptions w = (Inr ts, w')"
  shows "\<exists>stackImage buildImage buildpackUrl buildpackName.
     ts = ensureTask (ensureTask (ensureTask tasks (pull_task env baseDir stackImage))
                        (pull_task env baseDir buildImage))
            (clone_task env baseDir buildpackUrl buildpackName)
          @ [compile_task env baseDir (path_join env [baseDir, js ''service-'' @ name]) name
               buildImage buildpackName,
             build_image_task env baseDir (path_join env [baseDir, js ''service-'' @ name]) cfg
               name stackImage,
             docs_task env baseDir (path_join env [baseDir, js ''service-'' @ name]) name stackImage,
             push_task env baseDir (path_join env [baseDir, js ''service-'' @ name]) name
               cmdOptions]"
proof -
  from assms obtain w1 where
    "(case find (\<lambda>r. repo_name r = name) (repositories (build spec)) of
        None \<Rightarrow> io_throw TypeError
      | Some repository \<Rightarrow>
          if buildtype (service repository) \<noteq> js ''heroku-buildpack'' then
            io_throw (AssertionError (js ''I only know how to do heroku buildpacks!''))
          else
          (let stackImage = js ''heroku/'' @ replace 0x2D 0x3A (stack (service repository));
               buildImage = js ''heroku/'' @ replace 0x2D 0x3A (stack (service repository))
                              @ js ''-build'';
               buildpackUrl = buildpack (service repository);
               buildpackName =
                 (if startsWith buildpackUrl (js ''https://github.com/heroku/'')
                  then index (split 0x2F buildpackUrl) 4
                  else Str (replace 0x2F 0x5F buildpackUrl));
               tasks1 = ensureTask tasks (pull_task env baseDir stackImage);
               tasks2 = ensureTask tasks1 (pull_task env baseDir buildImage);
               tasks3 = ensureTask tasks2 (clone_task env baseDir buildpackUrl buildpackName)
           in
           io_return
             (tasks3 @
              [compile_task env baseDir (path_join env [baseDir, js ''service-'' @ name]) name buildImage buildpackName,
               build_image_task env baseDir (path_join env [baseDir, js ''service-'' @ name]) cfg name stackImage,
               docs_task env baseDir (path_join env [baseDir, js ''service-'' @ name]) name stackImage,
               push_task env baseDir (path_join env [baseDir, js ''service-'' @ name]) name cmdOptions]))) w1
     = (Inr ts, w')"
    unfolding generateServiceTasks_def Let_def by (rule io_bind_cases) simp_all
  then show ?thesis
    by (auto simp: Let_def io_return_def io_throw_def split: option.splits if_splits)
qed

lemma generated_node_cases:
  assumes gen: "generateServiceTasks env tasks baseDir spec cfg name cmdOptions w0 = (Inr ts, w1)"
    and t: "t \<in> set ts" "t \<notin> set tasks"
  shows "\<exists>workDir i u n.
           t = pull_task env baseDir i \<or> t = clone_task env baseDir u n
         \<or> t = compile_task env baseDir workDir name i n
         \<or> t = build_image_task env baseDir workDir cfg name i
         \<or> t = docs_task env baseDir workDir name i
         \<or> t = push_task env baseDir workDir name cmdOptions"
proof -
  from generateServiceTasks_nodes [OF gen] obtain stackImage buildImage buildpackUrl buildpackName
    where ts: "ts = ensureTask (ensureTask (ensureTask tasks (pull_task env baseDir stackImage))
                        (pull_task env baseDir buildImage))
            (clone_task env baseDir buildpackUrl buildpackName)
          @ [compile_task env baseDir (path_join env [baseDir, js ''service-'' @ name]) name
               buildImage buildpackName,
             build_image_task env baseDir (path_join env [baseDir, js ''service-'' @ name]) cfg
               name stackImage,
             docs_task env baseDir (path_join env [baseDir, js ''service-'' @ name]) name stackImage,
             push_task env baseDir (path_join env [baseDir, js ''service-'' @ name]) name
               cmdOptions]"
    by blast
  have "set (ensureTask (ensureTask (ensureTask tasks (pull_task env baseDir stackImage))
                        (pull_task env baseDir buildImage))
            (clone_task env baseDir buildpackUrl buildpackName))
        \<subseteq> {clone_task env baseDir buildpackUrl buildpackName, pull_task env baseDir buildImage,
            pull_task env baseDir stackImage} \<union> set tasks"
    using set_ensureTask [of tasks "pull_task env baseDir stackImage"]
      set_ensureTask [of "ensureTask tasks (pull_task env baseDir stackImage)"
        "pull_task env baseDir buildImage"]
      set_ensureTask [of "ensureTask (ensureTask tasks (pull_task env baseDir stackImage))
        (pull_task env baseDir buildImage)" "clone_task env baseDir buildpackUrl buildpackName"]
    by blast
  with t have "t = pull_task env baseDir stackImage \<or> t = pull_task env baseDir buildImage
      \<or> t = clone_task env baseDir buildpackUrl buildpackName
      \<or> t = compile_task env baseDir (path_join env [baseDir, js ''service-'' @ name]) name
               buildImage buildpackName
      \<or> t = build_image_task env baseDir (path_join env [baseDir, js ''service-'' @ name]) cfg
               name stackImage
      \<or> t = docs_task env baseDir (path_join env [baseDir, js ''service-'' @ name]) name stackImage
      \<or> t = push_task env baseDir (path_join env [baseDir, js ''service-'' @ name]) name
               cmdOptions"
    unfolding ts by auto
  then show ?thesis by blast
qed

lemma not_pull_task:
  "clone_task env baseDir u n \<noteq> pull_task env' baseDir' i'"
  "compile_task env baseDir workDir name i n \<noteq> pull_task env' baseDir' i'"
  "build_image_task env baseDir workDir cfg name i \<noteq> pull_task env' baseDir' i'"
  "docs_task env baseDir workDir name i \<noteq> pull_task env' baseDir' i'"
  "push_task env baseDir workDir name cmdOptions \<noteq> pull_task env' baseDir' i'"
proof -
  have "title (clone_task env baseDir u n) \<noteq> title (pull_task env' baseDir' i')"
    "title (compile_task env baseDir workDir name i n) \<noteq> title (pull_task env' baseDir' i')"
    "title (build_image_task env baseDir workDir cfg name i) \<noteq> title (pull_task env' baseDir' i')"
    "title (docs_task env baseDir workDir name i) \<noteq> title (pull_task env' baseDir' i')"
    "title (push_task env baseDir workDir name cmdOptions) \<noteq> title (pull_task env' baseDir' i')"
    by (simp_all add: task_fields js_def)
  then show "clone_task env baseDir u n \<noteq> pull_task env' baseDir' i'"
    "compile_task env baseDir workDir name i n \<noteq> pull_task env' baseDir' i'"
    "build_image_task env baseDir workDir cfg name i \<noteq> pull_task env' baseDir' i'"
    "docs_task env baseDir workDir name i \<noteq> pull_task env' baseDir' i'"
    "push_task env baseDir workDir name cmdOptions \<noteq> pull_task env' baseDir' i'"
    by metis+
qed

text \<open>
  C3, as amended. The last four nodes that \<open>generateServiceTasks\<close> appends are Compile,
  Build Image, Generate Docs and Push Image of the service. Build Image and Generate Docs
  both require \<open>service-<name>-built-app-dir\<close>, which Compile provides; Generate Docs
  requires no key that Build Image provides, and Build Image none that Generate Docs
  provides: Compile comes before both, and the two are not ordered by their keys.
\<close>

theorem stage_nodes_order:
  assumes "generateServiceTasks env tasks baseDir spec cfg name cmdOptions w = (Inr ts, w')"
  shows "\<exists>c b d p. drop (length ts - 4) ts = [c, b, d, p]
     \<and> title c = js ''Service '' @ name @ js '' - Compile''
     \<and> title b = js ''Service '' @ name @ js '' - Build Image''
     \<and> title d = js ''Service '' @ name @ js '' - Generate Docs''
     \<and> js ''service-'' @ name @ js ''-built-app-dir'' \<in> set (provides c)
     \<and> js ''service-'' @ name @ js ''-built-app-dir'' \<in> set (requires b)
     \<and> js ''service-'' @ name @ js ''-built-app-dir'' \<in> set (requires d)
     \<and> set (requires d) \<inter> set (provides b) = {}
     \<and> set (requires b) \<inter> set (provides d) = {}"
proof -
  let ?workDir = "path_join env [baseDir, js ''service-'' @ name]"
  let ?key = "js ''service-'' @ name @ js ''-built-app-dir''"
  from generateServiceTasks_nodes [OF assms] obtain stackImage buildImage buildpackName ts3
    where ts: "ts = ts3 @
           [compile_task env baseDir ?workDir name buildImage buildpackName,
            build_image_task env baseDir ?workDir cfg name stackImage,
            docs_task env baseDir ?workDir name stackImage,
            push_task env baseDir ?workDir name cmdOptions]"
    by blast
  let ?c = "compile_task env baseDir ?workDir name buildImage buildpackName"
  let ?b = "build_image_task env baseDir ?workDir cfg name stackImage"
  let ?d = "docs_task env baseDir ?workDir name stackImage"
  let ?p = "push_task env baseDir ?workDir name cmdOptions"
  have "drop (length ts - 4) ts = [?c, ?b, ?d, ?p]" unfolding ts by simp
  moreover have "title ?c = js ''Service '' @ name @ js '' - Compile''"
    and "title ?b = js ''Service '' @ name @ js '' - Build Image''"
    and "title ?d = js ''Service '' @ name @ js '' - Generate Docs''"
    by (simp_all add: task_fields)
  moreover have "?key \<in> set (provides ?c)" "?key \<in> set (requires ?b)" "?key \<in> set (requires ?d)"
    by (simp_all add: task_fields)
  moreover have "set (requires ?d) \<inter> set (provides ?b) = {}"
    by (simp add: task_fields js_def)
  moreover have "set (requires ?b) \<inter> set (provides ?d) = {}"
    by (simp add: task_fields js_def)
  ultimately show ?thesis by blast
qed

theorem stage_nodes_order_witness:
  "generateServiceTasks sim_env [] (js ''/b'') sim_spec sim_cfg (js ''x'') \<lparr>push = Bool True\<rparr>
       sim_world
     = (Inr sim_tasks, snd (sim_generate sim_world))
   \<and> (\<exists>c b d p. drop (length sim_tasks - 4) sim_tasks = [c, b, d, p]
     \<and> title c = js ''Service '' @ js ''x'' @ js '' - Compile''
     \<and> title b = js ''Service '' @ js ''x'' @ js '' - Build Image''
     \<and> title d = js ''Service '' @ js ''x'' @ js '' - Generate Docs''
     \<and> js ''service-'' @ js ''x'' @ js ''-built-app-dir'' \<in> set (provides c)
     \<and> js ''service-'' @ js ''x'' @ js ''-built-app-dir'' \<in> set (requires b)
     \<and> js ''service-'' @ js ''x'' @ js ''-built-app-dir'' \<in> set (requires d)
     \<and> set (requires d) \<inter> set (provides b) = {}
     \<and> set (requires b) \<inter> set (provides d) = {})"
proof -
  have g: "generateServiceTasks sim_env [] (js ''/b'') sim_spec sim_cfg (js ''x'')
       \<lparr>push = Bool True\<rparr> sim_world = (Inr sim_tasks, snd (sim_generate sim_world))"
    using sim_generate_run by (simp add: sim_generate_def)
  from g stage_nodes_order [OF g] show ?thesis by (rule conjI)
qed

text \<open>
  C3 as stated has Generate Docs require a key that Build Image provides. For the service
  \<open>x\<close>, no key required by Generate Docs is provided by Build Image.
\<close>

theorem stage_nodes_order_counterexample:
  "fst (sim_generate sim_world) = Inr sim_tasks
   \<and> title (sim_tasks ! 4) = js ''Service x - Build Image''
   \<and> title (sim_tasks ! 5) = js ''Service x - Generate Docs''
   \<and> \<not> list_ex (\<lambda>k. list_ex (\<lambda>k'. k' = k) (provides (sim_tasks ! 4))) (requires (sim_tasks ! 5))"
  by (simp add: sim_generate_tasks) (simp add: sim_tasks_def task_fields js_def)

section \<open>Build Image\<close>

lemma build_image_local:
  assumes src: "requirements (js ''repo-'' @ name @ js ''-exact-source'') = Str exact_source"
    and tag: "tag = to_string (repositoryPrefix (docker cfg)) @ name @ js '':''
                     @ to_string (index (split 0x23 exact_source) 1)"
    and images: "dockerImages env baseDir (host w) = Inr images"
    and local: "list_ex (\<lambda>im. case RepoTags im of None \<Rightarrow> False | Some tags \<Rightarrow> tag \<in> set tags) images"
    and registry: "dockerRegistryCheck env tag (host w) = Inr b"
  shows "build_image_run env baseDir workDir cfg name stackImage requirements w
         = (Inr (Skip [(js ''service-'' @ name @ js ''-docker-image'', Str tag),
                       (js ''service-'' @ name @ js ''-image-on-registry'', Bool b)]),
            \<lparr>host = host w,
             trace = trace w @ [Step (js ''Check for Existing Images''), DockerImages baseDir,
                                DockerRegistryCheck tag]\<rparr>)"
  using local images registry unfolding tag
  by (simp add: build_image_run_def src Let_def io_bind_def step_def io_probe_def logged_def
      io_return_def
      del: One_nat_def)

text \<open>
  C6. When the computed tag is among the \<open>RepoTags\<close> of a local image and the registry
  check answers true, the run of \<open>Service <name> - Build Image\<close> returns its provided values
  by \<open>skip\<close>; the calls it makes are the notification of the step and the two probes, so
  neither \<open>dockerPull\<close> nor \<open>dockerBuild\<close> is called, and the host is unchanged.
\<close>

theorem build_image_skips_local_and_remote:
  assumes "requirements (js ''repo-'' @ name @ js ''-exact-source'') = Str exact_source"
    and "tag = to_string (repositoryPrefix (docker cfg)) @ name @ js '':''
                     @ to_string (index (split 0x23 exact_source) 1)"
    and "dockerImages env baseDir (host w) = Inr images"
    and "list_ex (\<lambda>im. case RepoTags im of None \<Rightarrow> False | Some tags \<Rightarrow> tag \<in> set tags) images"
    and "dockerRegistryCheck env tag (host w) = Inr True"
  shows "run (build_image_task env baseDir workDir cfg name stackImage) requirements w
         = (Inr (Skip [(js ''service-'' @ name @ js ''-docker-image'', Str tag),
                       (js ''service-'' @ name @ js ''-image-on-registry'', Bool True)]),
            \<lparr>host = host w,
             trace = trace w @ [Step (js ''Check for Existing Images''), DockerImages baseDir,
                                DockerRegistryCheck tag]\<rparr>)"
  unfolding task_fields using assms by (rule build_image_local)

theorem build_image_skips_local_and_remote_witness:
  "sim_requirements (js ''repo-'' @ js ''x'' @ js ''-exact-source'')
     = Str (js ''https://example.com/x#abc'')
   \<and> dockerImages sim_env (js ''/b'') (host (sim_world_local True))
     = Inr [\<lparr>RepoTags = None\<rparr>, \<lparr>RepoTags = Some [js ''tc/x:abc'']\<rparr>]
   \<and> dockerRegistryCheck sim_env (js ''tc/x:abc'') (host (sim_world_local True)) = Inr True
   \<and> run (build_image_task sim_env (js ''/b'') (js ''/b/service-x'') sim_cfg (js ''x'')
            (js ''heroku/heroku:16'')) sim_requirements (sim_world_local True)
     = (Inr (Skip [(js ''service-x-docker-image'', Str (js ''tc/x:abc'')),
                   (js ''service-x-image-on-registry'', Bool True)]),
        \<lparr>host = host (sim_world_local True),
         trace = [Step (js ''Check for Existing Images''), DockerImages (js ''/b''),
                  DockerRegistryCheck (js ''tc/x:abc'')]\<rparr>)"
proof -
  have a: "sim_requirements (js ''repo-'' @ js ''x'' @ js ''-exact-source'')
     = Str (js ''https://example.com/x#abc'')"
    by (simp add: sim_requirements_def js_def)
  have b: "js ''tc/x:abc'' = to_string (repositoryPrefix (docker sim_cfg)) @ js ''x'' @ js '':''
     @ to_string (index (split 0x23 (js ''https://example.com/x#abc'')) 1)"
    by (rule sim_tag [symmetric])
  have c: "dockerImages sim_env (js ''/b'') (host (sim_world_local True))
     = Inr [\<lparr>RepoTags = None\<rparr>, \<lparr>RepoTags = Some [js ''tc/x:abc'']\<rparr>]"
    by (simp add: sim_env_simps sim_world_local_def)
  have d: "list_ex (\<lambda>im. case RepoTags im of None \<Rightarrow> False
                         | Some tags \<Rightarrow> js ''tc/x:abc'' \<in> set tags)
             [\<lparr>RepoTags = None\<rparr>, \<lparr>RepoTags = Some [js ''tc/x:abc'']\<rparr>]"
    by simp
  have e: "dockerRegistryCheck sim_env (js ''tc/x:abc'') (host (sim_world_local True)) = Inr True"
    by (simp add: sim_env_simps sim_world_local_def)
  from build_image_skips_local_and_remote [where requirements = sim_requirements and name = "js ''x''"
      and exact_source = "js ''https://example.com/x#abc''" and tag = "js ''tc/x:abc''"
      and cfg = sim_cfg and env = sim_env and baseDir = "js ''/b''"
      and w = "sim_world_local True"
      and images = "[\<lparr>RepoTags = None\<rparr>, \<lparr>RepoTags = Some [js ''tc/x:abc'']\<rparr>]"
      and workDir = "js ''/b/service-x''" and stackImage = "js ''heroku/heroku:16''",
      OF a b c d e]
  have "run (build_image_task sim_env (js ''/b'') (js ''/b/service-x'') sim_cfg (js ''x'')
            (js ''heroku/heroku:16'')) sim_requirements (sim_world_local True)
     = (Inr (Skip [(js ''service-x-docker-image'', Str (js ''tc/x:abc'')),
                   (js ''service-x-image-on-registry'', Bool True)]),
        \<lparr>host = host (sim_world_local True),
         trace = [Step (js ''Check for Existing Images''), DockerImages (js ''/b''),
                  DockerRegistryCheck (js ''tc/x:abc'')]\<rparr>)"
    by (simp add: js_def sim_world_local_def)
  with a c e show ?thesis by blast
qed

text \<open>
  C7, as amended. When the computed tag is among the \<open>RepoTags\<close> of a local image and the
  registry check answers, the run of \<open>Service <name> - Build Image\<close> skips the build (it
  calls neither \<open>dockerBuild\<close> nor \<open>dockerPull\<close>) and the provided
  \<open>service-<name>-image-on-registry\<close> is the answer of the registry check: false when the
  tag is not on the registry, true when it is.
\<close>

theorem build_image_local_reports_registry_probe:
  assumes "requirements (js ''repo-'' @ name @ js ''-exact-source'') = Str exact_source"
    and "tag = to_string (repositoryPrefix (docker cfg)) @ name @ js '':''
                     @ to_string (index (split 0x23 exact_source) 1)"
    and "dockerImages env baseDir (host w) = Inr images"
    and "list_ex (\<lambda>im. case RepoTags im of None \<Rightarrow> False | Some tags \<Rightarrow> tag \<in> set tags) images"
    and "dockerRegistryCheck env tag (host w) = Inr on_registry"
  shows "\<exists>w'. run (build_image_task env baseDir workDir cfg name stackImage) requirements w
           = (Inr (Skip [(js ''service-'' @ name @ js ''-docker-image'', Str tag),
                         (js ''service-'' @ name @ js ''-image-on-registry'', Bool on_registry)]),
              w')
         \<and> host w' = host w
         \<and> trace w' = trace w @ [Step (js ''Check for Existing Images''), DockerImages baseDir,
                                  DockerRegistryCheck tag]"
proof -
  from assms have "build_image_run env baseDir workDir cfg name stackImage requirements w
         = (Inr (Skip [(js ''service-'' @ name @ js ''-docker-image'', Str tag),
                       (js ''service-'' @ name @ js ''-image-on-registry'', Bool on_registry)]),
            \<lparr>host = host w,
             trace = trace w @ [Step (js ''Check for Existing Images''), DockerImages baseDir,
                                DockerRegistryCheck tag]\<rparr>)"
    by (rule build_image_local)
  then show ?thesis unfolding task_fields by simp
qed

theorem build_image_local_reports_registry_probe_witness:
  "sim_requirements (js ''repo-'' @ js ''x'' @ js ''-exact-source'')
     = Str (js ''https://example.com/x#abc'')
   \<and> dockerImages sim_env (js ''/b'') (host (sim_world_local False))
     = Inr [\<lparr>RepoTags = None\<rparr>, \<lparr>RepoTags = Some [js ''tc/x:abc'']\<rparr>]
   \<and> dockerRegistryCheck sim_env (js ''tc/x:abc'') (host (sim_world_local False)) = Inr False
   \<and> fst (run (build_image_task sim_env (js ''/b'') (js ''/b/service-x'') sim_cfg (js ''x'')
            (js ''heroku/heroku:16'')) sim_requirements (sim_world_local False))
     = Inr (Skip [(js ''service-x-docker-image'', Str (js ''tc/x:abc'')),
                  (js ''service-x-image-on-registry'', Bool False)])"
proof -
  have a: "sim_requirements (js ''repo-'' @ js ''x'' @ js ''-exact-source'')
     = Str (js ''https://example.com/x#abc'')"
    by (simp add: sim_requirements_def js_def)
  have b: "js ''tc/x:abc'' = to_string (repositoryPrefix (docker sim_cfg)) @ js ''x'' @ js '':''
     @ to_string (index (split 0x23 (js ''https://example.com/x#abc'')) 1)"
    by (rule sim_tag [symmetric])
  have c: "dockerImages sim_env (js ''/b'') (host (sim_world_local False))
     = Inr [\<lparr>RepoTags = None\<rparr>, \<lparr>RepoTags = Some [js ''tc/x:abc'']\<rparr>]"
    by (simp add: sim_env_simps sim_world_local_def)
  have d: "list_ex (\<lambda>im. case RepoTags im of None \<Rightarrow> False
                         | Some tags \<Rightarrow> js ''tc/x:abc'' \<in> set tags)
             [\<lparr>RepoTags = None\<rparr>, \<lparr>RepoTags = Some [js ''tc/x:abc'']\<rparr>]"
    by simp
  have e: "dockerRegistryCheck sim_env (js ''tc/x:abc'') (host (sim_world_local False)) = Inr False"
    by (simp add: sim_env_simps sim_world_local_def)
  from build_image_local_reports_registry_probe [where requirements = sim_requirements and name = "js ''x''"
      and exact_source = "js ''https://example.com/x#abc''" and tag = "js ''tc/x:abc''"
      and cfg = sim_cfg and env = sim_env and baseDir = "js ''/b''"
      and w = "sim_world_local False"
      and images = "[\<lparr>RepoTags = None\<rparr>, \<lparr>RepoTags = Some [js ''tc/x:abc'']\<rparr>]"
      and workDir = "js ''/b/service-x''" and stackImage = "js ''heroku/heroku:16''",
      OF a b c d e]
  have "fst (run (build_image_task sim_env (js ''/b'') (js ''/b/service-x'') sim_cfg (js ''x'')
            (js ''heroku/heroku:16'')) sim_requirements (sim_world_local False))
     = Inr (Skip [(js ''service-x-docker-image'', Str (js ''tc/x:abc'')),
                  (js ''service-x-image-on-registry'', Bool False)])"
    by (auto simp: js_def)
  with a c e show ?thesis by blast
qed

text \<open>
  C7 as stated has the value false whenever the tag is local. With the tag local and on the
  registry the provided value is true.
\<close>

theorem build_image_local_reports_registry_probe_counterexample:
  "list_ex (\<lambda>im. case RepoTags im of None \<Rightarrow> False | Some tags \<Rightarrow> js ''tc/x:abc'' \<in> set tags)
     (sim_images (host (sim_world_local True)))
   \<and> fst (run (build_image_task sim_env (js ''/b'') (js ''/b/service-x'') sim_cfg (js ''x'')
            (js ''heroku/heroku:16'')) sim_requirements (sim_world_local True))
     = Inr (Skip [(js ''service-x-docker-image'', Str (js ''tc/x:abc'')),
                  (js ''service-x-image-on-registry'', Bool True)])"
  by (simp add: build_image_run_def sim_eval sim_world_local_def js_def index_def)

section \<open>Push Image\<close>

text \<open>
  C8. With the push option enabled (\<open>cmdOptions.push\<close> truthy) and a truthy value of
  \<open>service-<name>-image-on-registry\<close> in the requirements, the run of
  \<open>Service <name> - Push Image\<close> throws the error \<open>Image <tag> already exists on the registry;
  not pushing\<close>, where the tag is the required \<open>service-<name>-docker-image\<close>, and the world
  is as before: no \<open>dockerPush\<close> call is logged and the host is unchanged.
\<close>

theorem push_refuses_image_on_registry:
  assumes "truthy (push cmdOptions)"
    and "truthy (requirements (js ''service-'' @ name @ js ''-image-on-registry''))"
  shows "run (push_task env baseDir workDir name cmdOptions) requirements w
         = (Inl (Error (js ''Image ''
                        @ to_string (requirements (js ''service-'' @ name @ js ''-docker-image''))
                        @ js '' already exists on the registry; not pushing'')), w)"
  using assms by (simp add: task_fields push_run_def io_throw_def)

theorem push_refuses_image_on_registry_witness:
  "truthy (push \<lparr>push = Bool True\<rparr>)
   \<and> truthy ((sim_requirements (js ''service-x-image-on-registry'' := Bool True))
               (js ''service-'' @ js ''x'' @ js ''-image-on-registry''))
   \<and> run (push_task sim_env (js ''/b'') (js ''/b/service-x'') (js ''x'') \<lparr>push = Bool True\<rparr>)
         (sim_requirements (js ''service-x-image-on-registry'' := Bool True)) sim_world
       = (Inl (Error (js ''Image tc/x:abc already exists on the registry; not pushing'')),
          sim_world)"
proof -
  have a: "truthy (push \<lparr>push = Bool True\<rparr>)" by simp
  have b: "truthy ((sim_requirements (js ''service-x-image-on-registry'' := Bool True))
               (js ''service-'' @ js ''x'' @ js ''-image-on-registry''))"
    by (simp add: js_def)
  from push_refuses_image_on_registry [where cmdOptions = "\<lparr>push = Bool True\<rparr>"
      and requirements = "sim_requirements (js ''service-x-image-on-registry'' := Bool True)"
      and name = "js ''x''" and env = sim_env and baseDir = "js ''/b''"
      and workDir = "js ''/b/service-x''" and w = sim_world, OF a b]
  have "run (push_task sim_env (js ''/b'') (js ''/b/service-x'') (js ''x'') \<lparr>push = Bool True\<rparr>)
         (sim_requirements (js ''service-x-image-on-registry'' := Bool True)) sim_world
       = (Inl (Error (js ''Image tc/x:abc already exists on the registry; not pushing'')),
          sim_world)"
    by (simp add: sim_requirements_def js_def)
  with a b show ?thesis by blast
qed

section \<open>What a run returns\<close>

lemma pull_run_result:
  assumes "pull_run env baseDir i requirements w = (Inr r, w')"
  shows "r = NoValue \<and> trace w' = trace w @ [DockerPull i baseDir]"
  using assms
  by (auto simp: pull_run_def io_bind_def io_return_def io_call_def logged_def
      split: prod.splits sum.splits)

lemma clone_run_result:
  assumes "clone_run env baseDir u n requirements w = (Inr r, w')"
  shows "\<exists>v. r = Value [(js ''repo-'' @ to_string n, v)]"
  using assms
  by (auto simp: clone_run_def Let_def io_bind_def io_return_def io_call_def logged_def
      split: prod.splits sum.splits)

lemma compile_run_result:
  assumes "compile_run env baseDir workDir name buildImage n requirements w = (Inr r, w')"
  shows "\<exists>v. r = Skip [(js ''service-'' @ name @ js ''-built-app-dir'', v)]
           \<or> r = Value [(js ''service-'' @ name @ js ''-built-app-dir'', v)]"
  using assms unfolding compile_run_def Let_def by (blast dest: stamped_shape_result)

lemma docs_run_result:
  assumes "docs_run env baseDir workDir name stackImage requirements w = (Inr r, w')"
  shows "\<exists>v. r = Skip [(js ''docs-'' @ name @ js ''-dir'', v)]
           \<or> r = Value [(js ''docs-'' @ name @ js ''-dir'', v)]"
  using assms
  by (auto simp: docs_run_def Let_def io_bind_def io_read_def io_return_def io_call_def logged_def
      split: if_splits prod.splits sum.splits)

lemma push_run_result:
  assumes "push_run env baseDir workDir name cmdOptions requirements w = (Inr r, w')"
  shows "r = Skip []"
  using assms
  by (auto simp: push_run_def Let_def io_bind_def io_throw_def io_return_def io_call_def logged_def
      split: if_splits prod.splits sum.splits)

lemma build_image_run_result:
  assumes "build_image_run env baseDir workDir cfg name stackImage requirements w = (Inr r, w')"
  shows "\<exists>v1 v2. r = Skip [(js ''service-'' @ name @ js ''-docker-image'', v1),
                           (js ''service-'' @ name @ js ''-image-on-registry'', v2)]
           \<or> r = Value [(js ''service-'' @ name @ js ''-docker-image'', v1),
                           (js ''service-'' @ name @ js ''-image-on-registry'', v2)]"
  using assms
  by (auto simp: build_image_run_def Let_def io_bind_def io_throw_def io_return_def io_call_def logged_def
      io_probe_def step_def
      split: jsval.splits if_splits prod.splits sum.splits)

text \<open>
  C2, as amended. For a node that \<open>generateServiceTasks\<close> added to the collection, a run
  that completes with an object, by \<open>skip\<close> or not, returns one whose keys are exactly the
  keys of the node's \<open>provides\<close>. The completions with no object are those of the
  \<open>Pull Docker Image\<close> nodes: their run returns \<open>undefined\<close> after \<open>dockerPull\<close>, so the
  key \<open>docker-image-...\<close> gets no value from \<open>run\<close>.
\<close>

theorem run_result_keys:
  assumes "generateServiceTasks env tasks baseDir spec cfg name cmdOptions w0 = (Inr ts, w1)"
    and "t \<in> set ts" and "t \<notin> set tasks"
    and "run t requirements w = (Inr r, w')"
  shows "(case r of
            Skip ob \<Rightarrow> keys ob = set (provides t)
          | Value ob \<Rightarrow> keys ob = set (provides t)
          | NoValue \<Rightarrow>
              (\<exists>image_name. t = pull_task env baseDir image_name
                 \<and> trace w' = trace w @ [DockerPull image_name baseDir]))
       \<and> ((\<exists>image_name. t = pull_task env baseDir image_name) \<longrightarrow> r = NoValue)"
proof -
  from generated_node_cases [OF assms(1,2,3)] obtain workDir i u n where
    "t = pull_task env baseDir i \<or> t = clone_task env baseDir u n
         \<or> t = compile_task env baseDir workDir name i n
         \<or> t = build_image_task env baseDir workDir cfg name i
         \<or> t = docs_task env baseDir workDir name i
         \<or> t = push_task env baseDir workDir name cmdOptions"
    by blast
  then consider
      (pull) "t = pull_task env baseDir i"
    | (clone) "t = clone_task env baseDir u n"
    | (compile) "t = compile_task env baseDir workDir name i n"
    | (build) "t = build_image_task env baseDir workDir cfg name i"
    | (docs) "t = docs_task env baseDir workDir name i"
    | (push) "t = push_task env baseDir workDir name cmdOptions"
    by blast
  then show ?thesis
  proof cases
    case pull
    with assms(4) have "pull_run env baseDir i requirements w = (Inr r, w')"
      by (simp add: task_fields)
    from pull_run_result [OF this] pull show ?thesis by auto
  next
    case clone
    with assms(4) have "clone_run env baseDir u n requirements w = (Inr r, w')"
      by (simp add: task_fields)
    from clone_run_result [OF this] clone show ?thesis
      by (auto simp: keys_def task_fields not_pull_task)
  next
    case compile
    with assms(4) have "compile_run env baseDir workDir name i n requirements w = (Inr r, w')"
      by (simp add: task_fields)
    from compile_run_result [OF this] compile show ?thesis
      by (auto simp: keys_def task_fields not_pull_task)
  next
    case build
    with assms(4) have "build_image_run env baseDir workDir cfg name i requirements w = (Inr r, w')"
      by (simp add: task_fields)
    from build_image_run_result [OF this] build show ?thesis
      by (auto simp: keys_def task_fields not_pull_task)
  next
    case docs
    with assms(4) have "docs_run env baseDir workDir name i requirements w = (Inr r, w')"
      by (simp add: task_fields)
    from docs_run_result [OF this] docs show ?thesis
      by (auto simp: keys_def task_fields not_pull_task)
  next
    case push
    with assms(4) have "push_run env baseDir workDir name cmdOptions requirements w = (Inr r, w')"
      by (simp add: task_fields)
    from push_run_result [OF this] push show ?thesis
      by (auto simp: keys_def task_fields not_pull_task)
  qed
qed

theorem run_result_keys_witness:
  "generateServiceTasks sim_env [] (js ''/b'') sim_spec sim_cfg (js ''x'') \<lparr>push = Bool True\<rparr>
       sim_world
     = (Inr sim_tasks, snd (sim_generate sim_world))
   \<and> sim_tasks ! 2 \<in> set sim_tasks
   \<and> sim_tasks ! 2 \<notin> set ([] :: sim task list)
   \<and> fst (run (sim_tasks ! 2) sim_requirements sim_world)
       = Inr (Value [(js ''repo-bp'', Str (js ''/b/repo-bp''))])
   \<and> keys [(js ''repo-bp'', Str (js ''/b/repo-bp''))] = set (provides (sim_tasks ! 2))
   \<and> sim_tasks ! 0 \<in> set sim_tasks
   \<and> sim_tasks ! 0 = pull_task sim_env (js ''/b'') (js ''heroku/heroku:16'')
   \<and> fst (run (sim_tasks ! 0) sim_requirements sim_world) = Inr NoValue"
proof -
  have g: "generateServiceTasks sim_env [] (js ''/b'') sim_spec sim_cfg (js ''x'')
       \<lparr>push = Bool True\<rparr> sim_world = (Inr sim_tasks, snd (sim_generate sim_world))"
    using sim_generate_run by (simp add: sim_generate_def)
  have m: "sim_tasks ! 2 \<in> set sim_tasks" and m0: "sim_tasks ! 0 \<in> set sim_tasks"
    by (simp_all add: sim_tasks_def)
  have n: "sim_tasks ! 2 \<notin> set ([] :: sim task list)"
    and n0: "sim_tasks ! 0 \<notin> set ([] :: sim task list)" by simp_all
  have p0: "sim_tasks ! 0 = pull_task sim_env (js ''/b'') (js ''heroku/heroku:16'')"
    by (simp add: sim_tasks_def)
  have f: "fst (run (sim_tasks ! 2) sim_requirements sim_world)
       = Inr (Value [(js ''repo-bp'', Str (js ''/b/repo-bp''))])"
    by (simp add: sim_tasks_def clone_run_def sim_eval js_def)
  then have r: "run (sim_tasks ! 2) sim_requirements sim_world
       = (Inr (Value [(js ''repo-bp'', Str (js ''/b/repo-bp''))]),
          snd (run (sim_tasks ! 2) sim_requirements sim_world))"
    by (metis prod.collapse)
  from run_result_keys [OF g m n r]
  have k: "keys [(js ''repo-bp'', Str (js ''/b/repo-bp''))] = set (provides (sim_tasks ! 2))"
    by simp
  have "\<exists>r. fst (run (sim_tasks ! 0) sim_requirements sim_world) = Inr r"
    by (simp add: sim_tasks_def pull_run_def sim_eval)
  then obtain r0 where f0: "fst (run (sim_tasks ! 0) sim_requirements sim_world) = Inr r0" ..
  then have "run (sim_tasks ! 0) sim_requirements sim_world
       = (Inr r0, snd (run (sim_tasks ! 0) sim_requirements sim_world))"
    by (metis prod.collapse)
  from run_result_keys [OF g m0 n0 this, THEN conjunct2] p0 have "r0 = NoValue" by blast
  with f0 have z: "fst (run (sim_tasks ! 0) sim_requirements sim_world) = Inr NoValue" by simp
  show ?thesis
    by (intro conjI) (fact g m n f k m0 p0 z)+
qed

text \<open>
  C2 as stated fails for the first node of the service \<open>x\<close>, \<open>Pull Docker Image
  heroku/heroku:16\<close>: its run completes with \<open>undefined\<close>, not with an object that has the key
  \<open>docker-image-heroku/heroku:16\<close>. The run of \<open>Service x - Push Image\<close>, with the push
  enabled and the image not on the registry, throws a ReferenceError after the call of
  \<open>dockerPush\<close>.
\<close>

theorem run_result_keys_counterexample:
  "fst (sim_generate sim_world) = Inr sim_tasks
   \<and> title (sim_tasks ! 0) = js ''Pull Docker Image heroku/heroku:16''
   \<and> provides (sim_tasks ! 0) = [js ''docker-image-heroku/heroku:16'']
   \<and> fst (run (sim_tasks ! 0) sim_requirements sim_world) = Inr NoValue
   \<and> title (sim_tasks ! 6) = js ''Service x - Push Image''
   \<and> run (sim_tasks ! 6) sim_requirements sim_world
       = (Inl (ReferenceError (js ''provides'')),
          \<lparr>host = sim_host \<lparr>sim_registry := [js ''tc/x:abc'']\<rparr>,
           trace = [DockerPush (js ''/b/service-x/docker-push.log'') (Str (js ''tc/x:abc''))
                      (js ''/b'')]\<rparr>)"
  by (simp add: sim_generate_tasks)
     (simp add: sim_tasks_def pull_run_def push_run_def sim_eval js_def)

end
